theory Spec2Isabelle
  imports Complex_Main "HOL-Library.Sublist"
begin

section \<open>Python strings\<close>

text \<open>
  The program is \<^verbatim>\<open>esp32_controller.py\<close>, class \<^verbatim>\<open>HandControllerConfig\<close>.
  A Python \<^verbatim>\<open>str\<close> is modelled as a \<^typ>\<open>string\<close>: a list of characters, each a code
  point below 256.  The operations below are the string methods the program calls,
  with their behaviour on that range.
\<close>

abbreviation ESC :: char where "ESC \<equiv> CHR 0x1B"

abbreviation NL :: char where "NL \<equiv> CHR 0x0A"

text \<open>\<^verbatim>\<open>c.isspace()\<close>: the white space characters among the code points below 256.\<close>

definition is_space :: "char \<Rightarrow> bool" where
  "is_space c = (c \<in> set [CHR 0x09, CHR 0x0A, CHR 0x0B, CHR 0x0C, CHR 0x0D,
                           CHR 0x1C, CHR 0x1D, CHR 0x1E, CHR 0x1F, CHR 0x20,
                           CHR 0x85, CHR 0xA0])"

text \<open>\<^verbatim>\<open>s.strip()\<close>: white space removed at both ends.\<close>

definition py_strip :: "string \<Rightarrow> string" where
  "py_strip s = rev (dropWhile is_space (rev (dropWhile is_space s)))"

text \<open>\<^verbatim>\<open>sub in s\<close>: \<open>sub\<close> occurs in \<open>s\<close> as a contiguous substring.\<close>

fun py_in :: "string \<Rightarrow> string \<Rightarrow> bool" where
  "py_in sub [] = (sub = [])"
| "py_in sub (c # cs) = (prefix sub (c # cs) \<or> py_in sub cs)"

text \<open>\<^verbatim>\<open>s.split(d)\<close> for a separator of one character, here \<^verbatim>\<open>'\n'\<close>: a character
  other than \<open>d\<close> goes in front of the first part of the split of what follows (which
  always has a first part).\<close>

fun split_on :: "char \<Rightarrow> string \<Rightarrow> string list" where
  "split_on d [] = [[]]"
| "split_on d (c # cs) =
     (if c = d then [] # split_on d cs
      else (case split_on d cs of
              [] \<Rightarrow> [[c]]
            | x # xs \<Rightarrow> (c # x) # xs))"

text \<open>
  \<^verbatim>\<open>s.split(sep)\<close> for a separator of several characters: the occurrences of \<open>sep\<close> are
  found from the left and do not overlap.  Every separator of the program is a
  non-empty literal (Python raises on an empty one).
\<close>

fun py_split :: "string \<Rightarrow> string \<Rightarrow> string list" where
  "py_split sep [] = [[]]"
| "py_split sep (c # cs) =
     (if prefix sep (c # cs) then [] # py_split sep (drop (length sep - 1) cs)
      else (case py_split sep cs of
              [] \<Rightarrow> [[c]]
            | x # xs \<Rightarrow> (c # x) # xs))"

text \<open>\<^verbatim>\<open>s.split(d, 1)\<close>: at most one split, at the first occurrence of \<open>d\<close>.\<close>

definition py_split1 :: "char \<Rightarrow> string \<Rightarrow> string list" where
  "py_split1 d s =
     (if d \<in> set s then [takeWhile (\<lambda>c. c \<noteq> d) s, tl (dropWhile (\<lambda>c. c \<noteq> d) s)]
      else [s])"

text \<open>\<^verbatim>\<open>s.split()\<close>: the maximal runs of characters that are not white space.\<close>

fun split_ws_acc :: "string \<Rightarrow> string \<Rightarrow> string list" where
  "split_ws_acc cur [] = (if cur = [] then [] else [rev cur])"
| "split_ws_acc cur (c # cs) =
     (if is_space c then (if cur = [] then split_ws_acc [] cs else rev cur # split_ws_acc [] cs)
      else split_ws_acc (c # cur) cs)"

definition py_split_ws :: "string \<Rightarrow> string list" where
  "py_split_ws s = split_ws_acc [] s"

text \<open>\<^verbatim>\<open>sep.join(parts)\<close>.\<close>

fun py_join :: "string \<Rightarrow> string list \<Rightarrow> string" where
  "py_join sep [] = []"
| "py_join sep [x] = x"
| "py_join sep (x # y # ys) = x @ sep @ py_join sep (y # ys)"

text \<open>\<^verbatim>\<open>s.lower()\<close>: the upper case letters below 256 are A to Z and 0xC0 to 0xDE
  without the multiplication sign 0xD7; each is 32 below its lower case letter.\<close>

definition lower_char :: "char \<Rightarrow> char" where
  "lower_char c =
     (let n = (of_char c :: nat)
      in if (65 \<le> n \<and> n \<le> 90) \<or> (192 \<le> n \<and> n \<le> 222 \<and> n \<noteq> 215)
         then char_of (n + 32) else c)"

definition py_lower :: "string \<Rightarrow> string" where
  "py_lower s = map lower_char s"

section \<open>The response cleaner\<close>

text \<open>
  \<^verbatim>\<open>ansi_escape = re.compile(r'\x1B(?:[@-Z\\-_]|\[[0-?]*[ -/]*[@-~])')\<close>

  After ESC the pattern takes either one character of \<^verbatim>\<open>[@-Z\\-_]\<close>, or \<^verbatim>\<open>[\<close>, the
  longest run of parameter characters \<^verbatim>\<open>[0-?]\<close>, the longest run of intermediate
  characters \<^verbatim>\<open>[ -/]\<close> and one final character \<^verbatim>\<open>[@-~]\<close>.  The three classes are
  disjoint, so backtracking into a shorter run never gives a match that the longest
  runs do not give.
\<close>

definition is_fe :: "char \<Rightarrow> bool" where
  "is_fe c = (let n = (of_char c :: nat) in (64 \<le> n \<and> n \<le> 90) \<or> (92 \<le> n \<and> n \<le> 95))"

definition is_param :: "char \<Rightarrow> bool" where
  "is_param c = (let n = (of_char c :: nat) in 48 \<le> n \<and> n \<le> 63)"

definition is_inter :: "char \<Rightarrow> bool" where
  "is_inter c = (let n = (of_char c :: nat) in 32 \<le> n \<and> n \<le> 47)"

definition is_final :: "char \<Rightarrow> bool" where
  "is_final c = (let n = (of_char c :: nat) in 64 \<le> n \<and> n \<le> 126)"

text \<open>The match of the pattern's tail right after an ESC: what follows the match, or
  \<open>None\<close> when the pattern does not match at this ESC.\<close>

definition ansi_match :: "string \<Rightarrow> string option" where
  "ansi_match s =
     (case s of
        [] \<Rightarrow> None
      | c # cs \<Rightarrow>
          if is_fe c then Some cs
          else if c = CHR ''['' then
            (case dropWhile is_inter (dropWhile is_param cs) of
               [] \<Rightarrow> None
             | f # rest \<Rightarrow> if is_final f then Some rest else None)
          else None)"

text \<open>\<^verbatim>\<open>ansi_escape.sub('', response)\<close>: every match, found from the left, is removed; an
  ESC at which the pattern does not match stays.\<close>

function strip_ansi :: "string \<Rightarrow> string" where
  "strip_ansi [] = []"
| "strip_ansi (c # cs) =
     (if c = ESC then
        (case ansi_match cs of
           Some rest \<Rightarrow> strip_ansi rest
         | None \<Rightarrow> c # strip_ansi cs)
      else c # strip_ansi cs)"
  by pat_completeness auto
termination
proof (relation "measure length")
  show "wf (measure length)" by simp
next
  fix c :: char and cs rest :: string
  assume m: "ansi_match cs = Some rest"
  have "length rest < length cs"
  proof (cases cs)
    case Nil
    with m show ?thesis by (simp add: ansi_match_def)
  next
    case (Cons a as)
    show ?thesis
    proof (cases "is_fe a")
      case True
      with m Cons show ?thesis by (simp add: ansi_match_def)
    next
      case False
      with m Cons obtain f where "dropWhile is_inter (dropWhile is_param as) = f # rest"
        by (auto simp: ansi_match_def split: if_splits list.splits)
      then have "Suc (length rest) = length (dropWhile is_inter (dropWhile is_param as))"
        by simp
      also have "\<dots> \<le> length (dropWhile is_param as)" by (rule length_dropWhile_le)
      also have "\<dots> \<le> length as" by (rule length_dropWhile_le)
      finally show ?thesis using Cons by simp
    qed
  qed
  then show "(rest, c # cs) \<in> measure length" by simp
qed auto

text \<open>A string that is exactly one match of the pattern: an escape sequence.\<close>

definition is_ansi_seq :: "string \<Rightarrow> bool" where
  "is_ansi_seq a = (case a of [] \<Rightarrow> False | c # x \<Rightarrow> c = ESC \<and> ansi_match x = Some [])"

text \<open>The lines the cleaner drops: \<^verbatim>\<open>any(skip_pattern in line for skip_pattern in [...])\<close>.\<close>

definition skip_patterns :: "string list" where
  "skip_patterns =
     [''I ('', ''USB_SERIAL: Processing command:'',
      ''USB_SERIAL: Parsed command type:'',
      ''USB_SERIAL: Motor pulley teeth set to:'',
      ''USB_SERIAL: Wheel pulley teeth set to:'',
      ''USB_SERIAL: Wheel diameter set to:'',
      ''USB_SERIAL: Motor poles set to:'',
      ''USB_SERIAL: Throttle inversion:'',
      ''USB_SERIAL: Level assistant:'',
      ''USB_SERIAL: Odometer reset'',
      ''USB_SERIAL: Configuration:'',
      ''USB_SERIAL: Available commands:'',
      ''USB_SERIAL: Unknown command:'']"

definition has_skip_pattern :: "string \<Rightarrow> bool" where
  "has_skip_pattern line = list_ex (\<lambda>skip_pattern. py_in skip_pattern line) skip_patterns"

text \<open>The loop of \<^verbatim>\<open>clean_response\<close> over the lines, returning \<^verbatim>\<open>filtered_lines\<close>.\<close>

fun filter_lines :: "string list \<Rightarrow> string list" where
  "filter_lines [] = []"
| "filter_lines (raw # rest) =
     (let line = py_strip raw
      in if line = [] then filter_lines rest
         else if has_skip_pattern line then filter_lines rest
         else if line \<in> set [''>'', ''''] then filter_lines rest
         else line # filter_lines rest)"

definition clean_response :: "string \<Rightarrow> string option" where
  "clean_response response =
     (let cleaned = strip_ansi response;
          lines = split_on NL cleaned;
          filtered_lines = filter_lines lines
      in if filtered_lines \<noteq> [] then Some (py_join [NL] filtered_lines) else None)"

section \<open>Exceptions, numbers and statements\<close>

text \<open>
  A Python expression that may raise evaluates to \<open>Inl e\<close> (the exception) or to
  \<open>Inr v\<close>.  A statement takes the state and returns the state it leaves, with the
  exception that left it, if any.
\<close>

datatype error = ValueError | IndexError | TclError

type_synonym 's stmt = "'s \<Rightarrow> error option \<times> 's"

definition skip :: "'s stmt" where
  "skip s = (None, s)"

text \<open>A sequence of statements: an exception ends it.\<close>

fun block :: "'s stmt list \<Rightarrow> 's stmt" where
  "block [] s = (None, s)"
| "block (st # sts) s =
     (case st s of
        (None, s') \<Rightarrow> block sts s'
      | (Some e, s') \<Rightarrow> (Some e, s'))"

text \<open>\<^verbatim>\<open>for x in xs: body(x)\<close>.\<close>

fun for_each :: "('a \<Rightarrow> 's stmt) \<Rightarrow> 'a list \<Rightarrow> 's stmt" where
  "for_each body [] s = (None, s)"
| "for_each body (x # xs) s =
     (case body x s of
        (None, s') \<Rightarrow> for_each body xs s'
      | (Some e, s') \<Rightarrow> (Some e, s'))"

text \<open>\<^verbatim>\<open>try: body / except: pass\<close> and \<^verbatim>\<open>except Exception as e: print(...)\<close>: the
  exception is dropped, the state is what the body left.\<close>

definition try_except :: "'s stmt \<Rightarrow> 's stmt" where
  "try_except body s = (None, snd (body s))"

text \<open>\<^verbatim>\<open>try: body / except Exception as e: handler\<close>, and \<^verbatim>\<open>except ValueError: handler\<close>,
  which lets every other exception through.\<close>

definition try_catch :: "'s stmt \<Rightarrow> 's stmt \<Rightarrow> 's stmt" where
  "try_catch body handler s =
     (case body s of
        (None, s') \<Rightarrow> (None, s')
      | (Some e, s') \<Rightarrow> handler s')"

definition try_catch_value_error :: "'s stmt \<Rightarrow> 's stmt \<Rightarrow> 's stmt" where
  "try_catch_value_error body handler s =
     (case body s of
        (None, s') \<Rightarrow> (None, s')
      | (Some e, s') \<Rightarrow> if e = ValueError then handler s' else (Some e, s'))"

text \<open>\<^verbatim>\<open>x = expr\<close> followed by statements that use \<open>x\<close>.\<close>

definition bind_val :: "error + 'a \<Rightarrow> ('a \<Rightarrow> 's stmt) \<Rightarrow> 's stmt" where
  "bind_val e f s = (case e of Inl err \<Rightarrow> (Some err, s) | Inr v \<Rightarrow> f v s)"

definition then_val :: "error + 'a \<Rightarrow> ('a \<Rightarrow> error + 'b) \<Rightarrow> error + 'b" where
  "then_val e f = (case e of Inl err \<Rightarrow> Inl err | Inr v \<Rightarrow> f v)"

text \<open>\<^verbatim>\<open>xs[i]\<close> for \<open>i \<ge> 0\<close>.\<close>

definition item :: "'a list \<Rightarrow> nat \<Rightarrow> error + 'a" where
  "item xs i = (if i < length xs then Inr (xs ! i) else Inl IndexError)"

text \<open>\<^verbatim>\<open>a, b = xs\<close>.\<close>

definition unpack2 :: "'a list \<Rightarrow> error + ('a \<times> 'a)" where
  "unpack2 xs = (case xs of [a, b] \<Rightarrow> Inr (a, b) | _ \<Rightarrow> Inl ValueError)"

text \<open>
  Decimal digits with single underscores between them (\<^verbatim>\<open>digit ("_"? digit)*\<close>), the
  form \<^verbatim>\<open>int\<close> and \<^verbatim>\<open>float\<close> accept; the whole string must have it.
\<close>

definition is_digit :: "char \<Rightarrow> bool" where
  "is_digit c = (c \<in> set ''0123456789'')"

definition digit_val :: "char \<Rightarrow> nat" where
  "digit_val c = of_char c - 48"

fun dec_digits :: "string \<Rightarrow> nat list option" where
  "dec_digits [] = None"
| "dec_digits [c] = (if is_digit c then Some [digit_val c] else None)"
| "dec_digits (c # d # cs) =
     (if is_digit c then
        map_option (\<lambda>ds. digit_val c # ds)
          (if d = CHR ''_'' then dec_digits cs else dec_digits (d # cs))
      else None)"

definition dec_value :: "nat list \<Rightarrow> nat" where
  "dec_value ds = foldl (\<lambda>a d. 10 * a + d) 0 ds"

definition split_sign :: "string \<Rightarrow> bool \<times> string" where
  "split_sign s =
     (case s of
        [] \<Rightarrow> (False, s)
      | c # cs \<Rightarrow> if c = CHR ''-'' then (True, cs) else if c = CHR ''+'' then (False, cs)
                  else (False, s))"

text \<open>
  The white space that \<^verbatim>\<open>int\<close> and \<^verbatim>\<open>float\<close> ignore at both ends of a string: that of
  \<^verbatim>\<open>strip\<close> without the separators 0x1C to 0x1F.
\<close>

definition is_num_space :: "char \<Rightarrow> bool" where
  "is_num_space c = (c \<in> set [CHR 0x09, CHR 0x0A, CHR 0x0B, CHR 0x0C, CHR 0x0D, CHR 0x20,
                               CHR 0x85, CHR 0xA0])"

definition num_strip :: "string \<Rightarrow> string" where
  "num_strip s = rev (dropWhile is_num_space (rev (dropWhile is_num_space s)))"

text \<open>
  \<^verbatim>\<open>int(s)\<close> on a string: white space at both ends is ignored, then an optional sign
  and decimal digits, of which there are at most 4300 (the default of
  \<^verbatim>\<open>sys.int_max_str_digits\<close>; a longer numeral raises ValueError).
\<close>

definition py_int :: "string \<Rightarrow> error + int" where
  "py_int s =
     (let (neg, body) = split_sign (num_strip s)
      in case dec_digits body of
           None \<Rightarrow> Inl ValueError
         | Some ds \<Rightarrow>
             if length ds > 4300 then Inl ValueError
             else Inr (if neg then - int (dec_value ds) else int (dec_value ds)))"

text \<open>
  A Python \<^verbatim>\<open>float\<close>.  A finite value is kept as the real number it stands for: the
  rounding of a decimal numeral to the nearest double is not modelled, nor is the sign
  of zero.  A numeral too large for a double is an infinity: the largest double is
  \<open>2 ^ 1024 - 2 ^ 971\<close>, and a real number from \<open>2 ^ 1024 - 2 ^ 970\<close> on rounds to
  infinity.
\<close>

datatype pyfloat = Fin real | PosInf | NegInf | NaN

fun float_lt :: "pyfloat \<Rightarrow> pyfloat \<Rightarrow> bool" where
  "float_lt NaN _ = False"
| "float_lt _ NaN = False"
| "float_lt (Fin a) (Fin b) = (a < b)"
| "float_lt PosInf _ = False"
| "float_lt _ PosInf = True"
| "float_lt NegInf NegInf = False"
| "float_lt NegInf _ = True"
| "float_lt _ NegInf = False"

definition float_gt :: "pyfloat \<Rightarrow> pyfloat \<Rightarrow> bool" where
  "float_gt a b = float_lt b a"

text \<open>The mantissa \<^verbatim>\<open>digits\<close>, \<^verbatim>\<open>digits.\<close>, \<^verbatim>\<open>.digits\<close> or \<^verbatim>\<open>digits.digits\<close>.\<close>

definition mantissa :: "string \<Rightarrow> real option" where
  "mantissa m =
     (let ip = takeWhile (\<lambda>c. c \<noteq> CHR ''.'') m;
          fp0 = dropWhile (\<lambda>c. c \<noteq> CHR ''.'') m
      in case fp0 of
           [] \<Rightarrow> map_option (\<lambda>ds. real (dec_value ds)) (dec_digits ip)
         | _ # fp \<Rightarrow>
             if ip = [] \<and> fp = [] then None
             else (case (if ip = [] then Some [] else dec_digits ip,
                         if fp = [] then Some [] else dec_digits fp) of
                     (Some ids, Some fds) \<Rightarrow>
                       Some (real (dec_value ids) + real (dec_value fds) / 10 ^ length fds)
                   | _ \<Rightarrow> None))"

definition exponent :: "string \<Rightarrow> int option" where
  "exponent ex =
     (let (neg, body) = split_sign ex
      in map_option (\<lambda>ds. if neg then - int (dec_value ds) else int (dec_value ds))
           (dec_digits body))"

definition scale10 :: "real \<Rightarrow> int \<Rightarrow> real" where
  "scale10 m k = (if 0 \<le> k then m * 10 ^ nat k else m / 10 ^ nat (- k))"

definition dec_float :: "string \<Rightarrow> real option" where
  "dec_float s =
     (let m = takeWhile (\<lambda>c. c \<notin> set ''eE'') s;
          rest = dropWhile (\<lambda>c. c \<notin> set ''eE'') s
      in case mantissa m of
           None \<Rightarrow> None
         | Some v \<Rightarrow>
             (case rest of
                [] \<Rightarrow> Some v
              | _ # ex \<Rightarrow> map_option (scale10 v) (exponent ex)))"

text \<open>\<^verbatim>\<open>float(s)\<close> on a string: white space at both ends is ignored, then an optional
  sign and \<^verbatim>\<open>inf\<close>, \<^verbatim>\<open>infinity\<close> or \<^verbatim>\<open>nan\<close> in any letter case, or a decimal numeral.\<close>

definition to_double :: "real \<Rightarrow> pyfloat" where
  "to_double x =
     (if 2 ^ 1024 - 2 ^ 970 \<le> x then PosInf
      else if x \<le> - (2 ^ 1024 - 2 ^ 970) then NegInf
      else Fin x)"

definition py_float :: "string \<Rightarrow> error + pyfloat" where
  "py_float s =
     (let (neg, body) = split_sign (num_strip s);
          low = py_lower body
      in if low = ''inf'' \<or> low = ''infinity'' then Inr (if neg then NegInf else PosInf)
         else if low = ''nan'' then Inr NaN
         else (case dec_float body of
                 None \<Rightarrow> Inl ValueError
               | Some v \<Rightarrow> Inr (to_double (if neg then - v else v))))"

section \<open>The configuration and its parser\<close>

text \<open>\<^verbatim>\<open>self.config\<close>: a dictionary with a fixed set of keys, each read and written by
  its literal name.\<close>

record configuration =
  invert_throttle :: bool
  level_assistant :: bool
  motor_pulley :: int
  wheel_pulley :: int
  wheel_diameter_mm :: int
  motor_poles :: int
  ble_connected :: bool
  pid_kp :: pyfloat
  pid_ki :: pyfloat
  pid_kd :: pyfloat
  pid_output_max :: pyfloat

definition initial_config :: configuration where
  "initial_config =
     \<lparr>invert_throttle = False, level_assistant = False, motor_pulley = 15,
      wheel_pulley = 33, wheel_diameter_mm = 115, motor_poles = 14,
      ble_connected = False, pid_kp = Fin (8 / 10), pid_ki = Fin (5 / 10),
      pid_kd = Fin (5 / 100), pid_output_max = Fin 48\<rparr>"

text \<open>
  The widgets the program writes to.  A call into the toolkit does not touch the
  configuration; whether it raises is not decided by this program, so the parser takes
  it as a parameter \<open>tk\<close>: \<open>tk w\<close> holds when a call on widget \<open>w\<close> raises.
\<close>

datatype widget =
  ThrottleVar | LevelAssistVar | PidKpVar | PidKiVar | PidKdVar | PidOutputMaxVar
  | PulleyVar | WheelPulleyVar | WheelVar | PolesVar | ConfigLabels | ResponseText

definition tk_call :: "(widget \<Rightarrow> bool) \<Rightarrow> widget \<Rightarrow> 's stmt" where
  "tk_call tk w s = (if tk w then (Some TclError, s) else (None, s))"

text \<open>The toolkit in which no call raises.\<close>

definition tk_ok :: "widget \<Rightarrow> bool" where
  "tk_ok w = False"

definition update_config_display :: "(widget \<Rightarrow> bool) \<Rightarrow> configuration stmt" where
  "update_config_display tk = tk_call tk ConfigLabels"

text \<open>\<^verbatim>\<open>self.config[key] = v\<close>.\<close>

definition store :: "(configuration \<Rightarrow> configuration) \<Rightarrow> configuration stmt" where
  "store f c = (None, f c)"

text \<open>\<^verbatim>\<open>parse_config_response\<close>, section by section of its \<^verbatim>\<open>try\<close> body.\<close>

definition parse_throttle_inversion :: "(widget \<Rightarrow> bool) \<Rightarrow> string \<Rightarrow> configuration stmt" where
  "parse_throttle_inversion tk response =
     (if py_in ''Throttle inversion: ENABLED'' response then
        block [store (\<lambda>c. c\<lparr>invert_throttle := True\<rparr>),
               tk_call tk ThrottleVar,
               update_config_display tk]
      else if py_in ''Throttle inversion: DISABLED'' response then
        block [store (\<lambda>c. c\<lparr>invert_throttle := False\<rparr>),
               tk_call tk ThrottleVar,
               update_config_display tk]
      else skip)"

definition parse_level_assistant :: "(widget \<Rightarrow> bool) \<Rightarrow> string \<Rightarrow> configuration stmt" where
  "parse_level_assistant tk response =
     (if py_in ''Level assistant: ENABLED'' response then
        block [store (\<lambda>c. c\<lparr>level_assistant := True\<rparr>),
               tk_call tk LevelAssistVar,
               update_config_display tk]
      else if py_in ''Level assistant: DISABLED'' response then
        block [store (\<lambda>c. c\<lparr>level_assistant := False\<rparr>),
               tk_call tk LevelAssistVar,
               update_config_display tk]
      else skip)"

text \<open>\<^verbatim>\<open>float(response.split(marker)[1].strip())\<close> and its \<^verbatim>\<open>int\<close> counterpart.\<close>

definition float_after :: "string \<Rightarrow> string \<Rightarrow> error + pyfloat" where
  "float_after marker response =
     then_val (item (py_split marker response) 1) (\<lambda>s. py_float (py_strip s))"

definition int_after :: "string \<Rightarrow> string \<Rightarrow> error + int" where
  "int_after marker response =
     then_val (item (py_split marker response) 1) (\<lambda>s. py_int (py_strip s))"

definition parse_pid_kp :: "(widget \<Rightarrow> bool) \<Rightarrow> string \<Rightarrow> configuration stmt" where
  "parse_pid_kp tk response =
     (if py_in ''PID Kp set to:'' response then
        try_except
          (bind_val (float_after ''PID Kp set to:'' response)
             (\<lambda>kp. block [store (\<lambda>c. c\<lparr>pid_kp := kp\<rparr>),
                           tk_call tk PidKpVar,
                           update_config_display tk]))
      else skip)"

definition parse_pid_ki :: "(widget \<Rightarrow> bool) \<Rightarrow> string \<Rightarrow> configuration stmt" where
  "parse_pid_ki tk response =
     (if py_in ''PID Ki set to:'' response then
        try_except
          (bind_val (float_after ''PID Ki set to:'' response)
             (\<lambda>ki. block [store (\<lambda>c. c\<lparr>pid_ki := ki\<rparr>),
                           tk_call tk PidKiVar,
                           update_config_display tk]))
      else skip)"

definition parse_pid_kd :: "(widget \<Rightarrow> bool) \<Rightarrow> string \<Rightarrow> configuration stmt" where
  "parse_pid_kd tk response =
     (if py_in ''PID Kd set to:'' response then
        try_except
          (bind_val (float_after ''PID Kd set to:'' response)
             (\<lambda>kd. block [store (\<lambda>c. c\<lparr>pid_kd := kd\<rparr>),
                           tk_call tk PidKdVar,
                           update_config_display tk]))
      else skip)"

definition parse_pid_output_max :: "(widget \<Rightarrow> bool) \<Rightarrow> string \<Rightarrow> configuration stmt" where
  "parse_pid_output_max tk response =
     (if py_in ''PID Output Max set to:'' response then
        try_except
          (bind_val (float_after ''PID Output Max set to:'' response)
             (\<lambda>output_max. block [store (\<lambda>c. c\<lparr>pid_output_max := output_max\<rparr>),
                                   tk_call tk PidOutputMaxVar,
                                   update_config_display tk]))
      else skip)"

text \<open>The display of \<^verbatim>\<open>get_pid_params\<close>: \<^verbatim>\<open>float(line.split(":")[1].strip())\<close> on each
  line that names a parameter.\<close>

definition float_field :: "string \<Rightarrow> error + pyfloat" where
  "float_field line =
     then_val (item (split_on CHR '':'' line) 1) (\<lambda>s. py_float (py_strip s))"

definition pid_params_line :: "(widget \<Rightarrow> bool) \<Rightarrow> string \<Rightarrow> configuration stmt" where
  "pid_params_line tk line =
     (if py_in ''Kp (Proportional):'' line then
        try_except
          (bind_val (float_field line)
             (\<lambda>kp. block [store (\<lambda>c. c\<lparr>pid_kp := kp\<rparr>), tk_call tk PidKpVar]))
      else if py_in ''Ki (Integral):'' line then
        try_except
          (bind_val (float_field line)
             (\<lambda>ki. block [store (\<lambda>c. c\<lparr>pid_ki := ki\<rparr>), tk_call tk PidKiVar]))
      else if py_in ''Kd (Derivative):'' line then
        try_except
          (bind_val (float_field line)
             (\<lambda>kd. block [store (\<lambda>c. c\<lparr>pid_kd := kd\<rparr>), tk_call tk PidKdVar]))
      else if py_in ''Output Max:'' line then
        try_except
          (bind_val (float_field line)
             (\<lambda>output_max. block [store (\<lambda>c. c\<lparr>pid_output_max := output_max\<rparr>),
                                   tk_call tk PidOutputMaxVar]))
      else skip)"

definition parse_pid_params :: "(widget \<Rightarrow> bool) \<Rightarrow> string \<Rightarrow> configuration stmt" where
  "parse_pid_params tk response =
     (if py_in ''=== Level Assistant PID Parameters ==='' response then
        block [for_each (pid_params_line tk) (split_on NL response),
               update_config_display tk]
      else skip)"

definition parse_motor_pulley :: "(widget \<Rightarrow> bool) \<Rightarrow> string \<Rightarrow> configuration stmt" where
  "parse_motor_pulley tk response =
     (if py_in ''Motor pulley teeth set to:'' response then
        try_except
          (bind_val (int_after ''Motor pulley teeth set to:'' response)
             (\<lambda>teeth. block [store (\<lambda>c. c\<lparr>motor_pulley := teeth\<rparr>),
                              tk_call tk PulleyVar,
                              update_config_display tk]))
      else skip)"

definition parse_wheel_pulley :: "(widget \<Rightarrow> bool) \<Rightarrow> string \<Rightarrow> configuration stmt" where
  "parse_wheel_pulley tk response =
     (if py_in ''Wheel pulley teeth set to:'' response then
        try_except
          (bind_val (int_after ''Wheel pulley teeth set to:'' response)
             (\<lambda>teeth. block [store (\<lambda>c. c\<lparr>wheel_pulley := teeth\<rparr>),
                              tk_call tk WheelPulleyVar,
                              update_config_display tk]))
      else skip)"

text \<open>\<^verbatim>\<open>int(response.split("Wheel diameter set to:")[1].split("mm")[0].strip())\<close>.\<close>

definition diameter_after :: "string \<Rightarrow> error + int" where
  "diameter_after response =
     then_val (item (py_split ''Wheel diameter set to:'' response) 1)
       (\<lambda>s. then_val (item (py_split ''mm'' s) 0) (\<lambda>t. py_int (py_strip t)))"

definition parse_wheel_diameter :: "(widget \<Rightarrow> bool) \<Rightarrow> string \<Rightarrow> configuration stmt" where
  "parse_wheel_diameter tk response =
     (if py_in ''Wheel diameter set to:'' response then
        try_except
          (bind_val (diameter_after response)
             (\<lambda>size. block [store (\<lambda>c. c\<lparr>wheel_diameter_mm := size\<rparr>),
                             tk_call tk WheelVar,
                             update_config_display tk]))
      else skip)"

definition parse_motor_poles :: "(widget \<Rightarrow> bool) \<Rightarrow> string \<Rightarrow> configuration stmt" where
  "parse_motor_poles tk response =
     (if py_in ''Motor poles set to:'' response then
        try_except
          (bind_val (int_after ''Motor poles set to:'' response)
             (\<lambda>poles. block [store (\<lambda>c. c\<lparr>motor_poles := poles\<rparr>),
                              tk_call tk PolesVar,
                              update_config_display tk]))
      else skip)"

text \<open>The display's form \<^verbatim>\<open>115 mm\<close>:
  \<^verbatim>\<open>int(value.split()[0] if ' ' in value else value)\<close>.\<close>

definition display_diameter :: "string \<Rightarrow> error + int" where
  "display_diameter value =
     then_val (if py_in '' '' value then item (py_split_ws value) 0 else Inr value) py_int"

text \<open>\<^verbatim>\<open>parse_config_display\<close>: the body of its loop, then the loop.\<close>

definition parse_display_line :: "(widget \<Rightarrow> bool) \<Rightarrow> string \<Rightarrow> configuration stmt" where
  "parse_display_line tk line =
     (if CHR '':'' \<in> set line then
        try_except
          (bind_val (unpack2 (py_split1 CHR '':'' line))
             (\<lambda>(key0, value0).
                let key = py_strip key0; value = py_strip value0
                in block
                  [if key \<in> set [''Throttle Inverted'', ''Throttle inversion''] then
                     block [store (\<lambda>c. c\<lparr>invert_throttle :=
                                      py_lower value \<in> set [''yes'', ''enabled'', ''true'']\<rparr>),
                            tk_call tk ThrottleVar]
                   else if key \<in> set [''Level Assistant'', ''Level assistant''] then
                     block [store (\<lambda>c. c\<lparr>level_assistant :=
                                      py_lower value \<in> set [''yes'', ''enabled'', ''true'']\<rparr>),
                            tk_call tk LevelAssistVar]
                   else if key \<in> set [''Motor Pulley Teeth'', ''Motor pulley teeth''] then
                     bind_val (py_int value)
                       (\<lambda>n. block [store (\<lambda>c. c\<lparr>motor_pulley := n\<rparr>), tk_call tk PulleyVar])
                   else if key \<in> set [''Wheel Pulley Teeth'', ''Wheel pulley teeth''] then
                     bind_val (py_int value)
                       (\<lambda>n. block [store (\<lambda>c. c\<lparr>wheel_pulley := n\<rparr>),
                                    tk_call tk WheelPulleyVar])
                   else if key \<in> set [''Wheel Diameter'', ''Wheel diameter''] then
                     bind_val (display_diameter value)
                       (\<lambda>n. block [store (\<lambda>c. c\<lparr>wheel_diameter_mm := n\<rparr>),
                                    tk_call tk WheelVar])
                   else if key \<in> set [''Motor Poles'', ''Motor poles''] then
                     bind_val (py_int value)
                       (\<lambda>n. block [store (\<lambda>c. c\<lparr>motor_poles := n\<rparr>), tk_call tk PolesVar])
                   else if key \<in> set [''BLE Connected'', ''BLE connected''] then
                     store (\<lambda>c. c\<lparr>ble_connected :=
                               py_lower value \<in> set [''yes'', ''connected'', ''true'']\<rparr>)
                   else skip,
                   update_config_display tk]))
      else skip)"

text \<open>The key and the value the loop reads from a line that has a colon:
  \<^verbatim>\<open>key, value = line.split(':', 1)\<close>, each trimmed; and the spellings of the keys it
  compares the key with.\<close>

definition line_key :: "string \<Rightarrow> string" where
  "line_key line = py_strip (takeWhile (\<lambda>c. c \<noteq> CHR '':'') line)"

definition line_value :: "string \<Rightarrow> string" where
  "line_value line = py_strip (tl (dropWhile (\<lambda>c. c \<noteq> CHR '':'') line))"

definition display_keys :: "string list" where
  "display_keys =
     [''Throttle Inverted'', ''Throttle inversion'', ''Level Assistant'', ''Level assistant'',
      ''Motor Pulley Teeth'', ''Motor pulley teeth'', ''Wheel Pulley Teeth'',
      ''Wheel pulley teeth'', ''Wheel Diameter'', ''Wheel diameter'', ''Motor Poles'',
      ''Motor poles'', ''BLE Connected'', ''BLE connected'']"

definition parse_config_display :: "(widget \<Rightarrow> bool) \<Rightarrow> string \<Rightarrow> configuration stmt" where
  "parse_config_display tk response = for_each (parse_display_line tk) (split_on NL response)"

definition display_keywords :: "string list" where
  "display_keywords =
     [''Throttle Inverted:'', ''Motor Pulley Teeth:'', ''Wheel Pulley Teeth:'',
      ''Wheel Diameter:'', ''Motor Poles:'', ''BLE Connected:'']"

text \<open>The condition under which \<^verbatim>\<open>parse_config_response\<close> calls
  \<^verbatim>\<open>parse_config_display\<close> (its \<^verbatim>\<open>if\<close> and its \<^verbatim>\<open>elif\<close> make the same call).\<close>

definition is_display :: "string \<Rightarrow> bool" where
  "is_display response =
     (if py_in ''Current Configuration'' response \<or> py_in ''Configuration:'' response then True
      else list_ex (\<lambda>keyword. py_in keyword response) display_keywords)"

definition parse_config_body :: "(widget \<Rightarrow> bool) \<Rightarrow> string \<Rightarrow> configuration stmt" where
  "parse_config_body tk response =
     block [parse_throttle_inversion tk response,
            parse_level_assistant tk response,
            parse_pid_kp tk response,
            parse_pid_ki tk response,
            parse_pid_kd tk response,
            parse_pid_output_max tk response,
            parse_pid_params tk response,
            parse_motor_pulley tk response,
            parse_wheel_pulley tk response,
            parse_wheel_diameter tk response,
            parse_motor_poles tk response,
            if is_display response then parse_config_display tk response else skip]"

definition parse_config_response :: "(widget \<Rightarrow> bool) \<Rightarrow> string \<Rightarrow> configuration stmt" where
  "parse_config_response tk response = try_except (parse_config_body tk response)"

text \<open>\<^verbatim>\<open>process_response\<close>: \<^verbatim>\<open>if cleaned_response:\<close> holds for a string that is not
  empty.\<close>

definition process_response :: "(widget \<Rightarrow> bool) \<Rightarrow> string \<Rightarrow> configuration stmt" where
  "process_response tk response =
     (case clean_response response of
        None \<Rightarrow> skip
      | Some cleaned_response \<Rightarrow>
          if cleaned_response \<noteq> [] then
            block [tk_call tk ResponseText, parse_config_response tk cleaned_response]
          else skip)"

section \<open>The command dispatcher\<close>

text \<open>
  A command is a formatted string \<^verbatim>\<open>f"set_motor_pulley {teeth}"\<close>: its literal text and
  the values formatted into it.  (How Python prints a float is not modelled, so the
  value stays a value.)
\<close>

datatype fpart = Lit string | IntV int | FloatV pyfloat

text \<open>
  The state the handlers act on: \<^verbatim>\<open>self.config\<close>, \<^verbatim>\<open>self.is_connected\<close>, the arguments
  of the calls of \<^verbatim>\<open>self.serial_port.write\<close> so far, and the message boxes shown so far
  (title and message; of a message that quotes an exception, the text before it).
\<close>

record app =
  config :: configuration
  is_connected :: bool
  written :: "fpart list list"
  dialogs :: "(string \<times> string) list"

definition messagebox :: "string \<Rightarrow> string \<Rightarrow> app stmt" where
  "messagebox title message a = (None, a\<lparr>dialogs := dialogs a @ [(title, message)]\<rparr>)"

definition serial_write :: "fpart list \<Rightarrow> app stmt" where
  "serial_write data a = (None, a\<lparr>written := written a @ [data]\<rparr>)"

text \<open>\<^verbatim>\<open>send_serial_command\<close>: the command and a newline are written, then logged.\<close>

definition send_serial_command :: "(widget \<Rightarrow> bool) \<Rightarrow> fpart list \<Rightarrow> app stmt" where
  "send_serial_command tk command =
     try_catch
       (block [serial_write (command @ [Lit [NL]]), tk_call tk ResponseText])
       (messagebox ''Send Error'' ''Failed to send command: '')"

definition toggle_throttle :: "(widget \<Rightarrow> bool) \<Rightarrow> app stmt" where
  "toggle_throttle tk a =
     (if \<not> is_connected a then
        block [messagebox ''Not Connected'' ''Please connect to ESP32 first'',
               tk_call tk ThrottleVar] a
      else send_serial_command tk [Lit ''invert_throttle''] a)"

definition toggle_level_assistant :: "(widget \<Rightarrow> bool) \<Rightarrow> app stmt" where
  "toggle_level_assistant tk a =
     (if \<not> is_connected a then
        block [messagebox ''Not Connected'' ''Please connect to ESP32 first'',
               tk_call tk LevelAssistVar] a
      else send_serial_command tk [Lit ''level_assistant''] a)"

definition reset_odometer :: "(widget \<Rightarrow> bool) \<Rightarrow> app stmt" where
  "reset_odometer tk a =
     (if \<not> is_connected a then
        messagebox ''Not Connected'' ''Please connect to ESP32 first'' a
      else send_serial_command tk [Lit ''reset_odometer''] a)"

text \<open>The four integer settings.  The argument is what \<^verbatim>\<open>self.pulley_var.get()\<close> gives:
  an integer, or the exception it raises on text that is not a number.\<close>

definition set_motor_pulley :: "(widget \<Rightarrow> bool) \<Rightarrow> error + int \<Rightarrow> app stmt" where
  "set_motor_pulley tk pulley_var a =
     (if \<not> is_connected a then
        messagebox ''Not Connected'' ''Please connect to ESP32 first'' a
      else
        try_catch_value_error
          (bind_val pulley_var
             (\<lambda>teeth.
                if teeth \<le> 0 \<or> teeth > 255 then
                  messagebox ''Invalid Value'' ''Pulley teeth must be between 1 and 255''
                else send_serial_command tk [Lit ''set_motor_pulley '', IntV teeth]))
          (messagebox ''Invalid Value'' ''Please enter a valid number'') a)"

definition set_wheel_pulley :: "(widget \<Rightarrow> bool) \<Rightarrow> error + int \<Rightarrow> app stmt" where
  "set_wheel_pulley tk wheel_pulley_var a =
     (if \<not> is_connected a then
        messagebox ''Not Connected'' ''Please connect to ESP32 first'' a
      else
        try_catch_value_error
          (bind_val wheel_pulley_var
             (\<lambda>teeth.
                if teeth \<le> 0 \<or> teeth > 255 then
                  messagebox ''Invalid Value'' ''Pulley teeth must be between 1 and 255''
                else send_serial_command tk [Lit ''set_wheel_pulley '', IntV teeth]))
          (messagebox ''Invalid Value'' ''Please enter a valid number'') a)"

definition set_wheel_size :: "(widget \<Rightarrow> bool) \<Rightarrow> error + int \<Rightarrow> app stmt" where
  "set_wheel_size tk wheel_var a =
     (if \<not> is_connected a then
        messagebox ''Not Connected'' ''Please connect to ESP32 first'' a
      else
        try_catch_value_error
          (bind_val wheel_var
             (\<lambda>size.
                if size \<le> 0 \<or> size > 255 then
                  messagebox ''Invalid Value'' ''Wheel diameter must be between 1 and 255 mm''
                else send_serial_command tk [Lit ''set_wheel_size '', IntV size]))
          (messagebox ''Invalid Value'' ''Please enter a valid number'') a)"

definition set_motor_poles :: "(widget \<Rightarrow> bool) \<Rightarrow> error + int \<Rightarrow> app stmt" where
  "set_motor_poles tk poles_var a =
     (if \<not> is_connected a then
        messagebox ''Not Connected'' ''Please connect to ESP32 first'' a
      else
        try_catch_value_error
          (bind_val poles_var
             (\<lambda>poles.
                if poles \<le> 0 \<or> poles > 255 then
                  messagebox ''Invalid Value'' ''Motor poles must be between 1 and 255''
                else send_serial_command tk [Lit ''set_motor_poles '', IntV poles]))
          (messagebox ''Invalid Value'' ''Please enter a valid number'') a)"

definition get_config :: "(widget \<Rightarrow> bool) \<Rightarrow> app stmt" where
  "get_config tk a =
     (if \<not> is_connected a then
        messagebox ''Not Connected'' ''Please connect to ESP32 first'' a
      else block [tk_call tk ResponseText, send_serial_command tk [Lit ''get_config'']] a)"

definition show_help :: "(widget \<Rightarrow> bool) \<Rightarrow> app stmt" where
  "show_help tk a =
     (if \<not> is_connected a then
        messagebox ''Not Connected'' ''Please connect to ESP32 first'' a
      else send_serial_command tk [Lit ''help''] a)"

text \<open>The argument is the answer to the \<^verbatim>\<open>askyesno\<close> box.\<close>

definition calibrate_throttle :: "(widget \<Rightarrow> bool) \<Rightarrow> bool \<Rightarrow> app stmt" where
  "calibrate_throttle tk result a =
     (if \<not> is_connected a then
        messagebox ''Not Connected'' ''Please connect to ESP32 first'' a
      else if result then
        block [tk_call tk ResponseText, send_serial_command tk [Lit ''calibrate_throttle'']] a
      else (None, a))"

definition get_calibration :: "(widget \<Rightarrow> bool) \<Rightarrow> app stmt" where
  "get_calibration tk a =
     (if \<not> is_connected a then
        messagebox ''Not Connected'' ''Please connect to ESP32 first'' a
      else block [tk_call tk ResponseText, send_serial_command tk [Lit ''get_calibration'']] a)"

text \<open>The four PID settings.  The argument is what \<^verbatim>\<open>self.pid_kp_var.get()\<close> gives.\<close>

definition set_pid_kp :: "(widget \<Rightarrow> bool) \<Rightarrow> error + pyfloat \<Rightarrow> app stmt" where
  "set_pid_kp tk pid_kp_var a =
     (if \<not> is_connected a then
        messagebox ''Not Connected'' ''Please connect to ESP32 first'' a
      else
        try_catch
          (bind_val pid_kp_var
             (\<lambda>kp.
                if float_lt kp (Fin 0) \<or> float_gt kp (Fin 10) then
                  messagebox ''Invalid Value'' ''Kp must be between 0.0 and 10.0''
                else
                  block [(\<lambda>a. (None, a\<lparr>config := (config a)\<lparr>pid_kp := kp\<rparr>\<rparr>)),
                         tk_call tk ResponseText,
                         send_serial_command tk [Lit ''set_pid_kp '', FloatV kp]]))
          (messagebox ''Error'' ''Invalid Kp value: '') a)"

definition set_pid_ki :: "(widget \<Rightarrow> bool) \<Rightarrow> error + pyfloat \<Rightarrow> app stmt" where
  "set_pid_ki tk pid_ki_var a =
     (if \<not> is_connected a then
        messagebox ''Not Connected'' ''Please connect to ESP32 first'' a
      else
        try_catch
          (bind_val pid_ki_var
             (\<lambda>ki.
                if float_lt ki (Fin 0) \<or> float_gt ki (Fin 2) then
                  messagebox ''Invalid Value'' ''Ki must be between 0.0 and 2.0''
                else
                  block [(\<lambda>a. (None, a\<lparr>config := (config a)\<lparr>pid_ki := ki\<rparr>\<rparr>)),
                         tk_call tk ResponseText,
                         send_serial_command tk [Lit ''set_pid_ki '', FloatV ki]]))
          (messagebox ''Error'' ''Invalid Ki value: '') a)"

definition set_pid_kd :: "(widget \<Rightarrow> bool) \<Rightarrow> error + pyfloat \<Rightarrow> app stmt" where
  "set_pid_kd tk pid_kd_var a =
     (if \<not> is_connected a then
        messagebox ''Not Connected'' ''Please connect to ESP32 first'' a
      else
        try_catch
          (bind_val pid_kd_var
             (\<lambda>kd.
                if float_lt kd (Fin 0) \<or> float_gt kd (Fin 1) then
                  messagebox ''Invalid Value'' ''Kd must be between 0.0 and 1.0''
                else
                  block [(\<lambda>a. (None, a\<lparr>config := (config a)\<lparr>pid_kd := kd\<rparr>\<rparr>)),
                         tk_call tk ResponseText,
                         send_serial_command tk [Lit ''set_pid_kd '', FloatV kd]]))
          (messagebox ''Error'' ''Invalid Kd value: '') a)"

definition set_pid_output_max :: "(widget \<Rightarrow> bool) \<Rightarrow> error + pyfloat \<Rightarrow> app stmt" where
  "set_pid_output_max tk pid_output_max_var a =
     (if \<not> is_connected a then
        messagebox ''Not Connected'' ''Please connect to ESP32 first'' a
      else
        try_catch
          (bind_val pid_output_max_var
             (\<lambda>output_max.
                if float_lt output_max (Fin 10) \<or> float_gt output_max (Fin 100) then
                  messagebox ''Invalid Value'' ''Output Max must be between 10.0 and 100.0''
                else
                  block [(\<lambda>a. (None, a\<lparr>config := (config a)\<lparr>pid_output_max := output_max\<rparr>\<rparr>)),
                         tk_call tk ResponseText,
                         send_serial_command tk [Lit ''set_pid_output_max '', FloatV output_max]]))
          (messagebox ''Error'' ''Invalid Output Max value: '') a)"

definition get_pid_params :: "(widget \<Rightarrow> bool) \<Rightarrow> app stmt" where
  "get_pid_params tk a =
     (if \<not> is_connected a then
        messagebox ''Not Connected'' ''Please connect to ESP32 first'' a
      else block [tk_call tk ResponseText, send_serial_command tk [Lit ''get_pid_params'']] a)"

text \<open>
  The user actions that send a command: the \<^verbatim>\<open>command=\<close> bindings of the buttons and
  check boxes in \<^verbatim>\<open>setup_ui\<close>, each with what the handler reads from its widget.
\<close>

datatype action =
  ToggleThrottle | ToggleLevelAssistant | ResetOdometer
  | SetMotorPulley "error + int" | SetWheelPulley "error + int"
  | SetWheelSize "error + int" | SetMotorPoles "error + int"
  | GetConfig | ShowHelp | CalibrateThrottle bool | GetCalibration
  | SetPidKp "error + pyfloat" | SetPidKi "error + pyfloat"
  | SetPidKd "error + pyfloat" | SetPidOutputMax "error + pyfloat"
  | GetPidParams

fun dispatch :: "(widget \<Rightarrow> bool) \<Rightarrow> action \<Rightarrow> app stmt" where
  "dispatch tk ToggleThrottle = toggle_throttle tk"
| "dispatch tk ToggleLevelAssistant = toggle_level_assistant tk"
| "dispatch tk ResetOdometer = reset_odometer tk"
| "dispatch tk (SetMotorPulley v) = set_motor_pulley tk v"
| "dispatch tk (SetWheelPulley v) = set_wheel_pulley tk v"
| "dispatch tk (SetWheelSize v) = set_wheel_size tk v"
| "dispatch tk (SetMotorPoles v) = set_motor_poles tk v"
| "dispatch tk GetConfig = get_config tk"
| "dispatch tk ShowHelp = show_help tk"
| "dispatch tk (CalibrateThrottle result) = calibrate_throttle tk result"
| "dispatch tk GetCalibration = get_calibration tk"
| "dispatch tk (SetPidKp v) = set_pid_kp tk v"
| "dispatch tk (SetPidKi v) = set_pid_ki tk v"
| "dispatch tk (SetPidKd v) = set_pid_kd tk v"
| "dispatch tk (SetPidOutputMax v) = set_pid_output_max tk v"
| "dispatch tk GetPidParams = get_pid_params tk"

text \<open>The state of a connected program that has sent nothing yet.\<close>

definition connected_app :: app where
  "connected_app =
     \<lparr>config = initial_config, is_connected = True, written = [], dialogs = []\<rparr>"

section \<open>Evaluation\<close>

text \<open>The facts that evaluate the statements and the parser on a given input.\<close>

lemmas stmt_eval = skip_def try_except_def try_catch_def try_catch_value_error_def bind_val_def
  then_val_def item_def unpack2_def store_def tk_call_def tk_ok_def update_config_display_def

lemmas parse_eval = parse_config_response_def parse_config_body_def parse_throttle_inversion_def
  parse_level_assistant_def parse_pid_kp_def parse_pid_ki_def parse_pid_kd_def
  parse_pid_output_max_def parse_pid_params_def parse_motor_pulley_def parse_wheel_pulley_def
  parse_wheel_diameter_def parse_motor_poles_def is_display_def display_keywords_def
  parse_config_display_def parse_display_line_def pid_params_line_def float_after_def
  int_after_def float_field_def diameter_after_def display_diameter_def

text \<open>The facts that evaluate \<^verbatim>\<open>lower\<close> on a given string.\<close>

lemma char_of_eval:
  "char_of (n :: nat) = c \<longleftrightarrow> n mod 256 = of_char c"
  "c = char_of (n :: nat) \<longleftrightarrow> n mod 256 = of_char c"
  by (metis char_of_char of_char_of)+

lemmas lower_eval = py_lower_def lower_char_def char_of_eval

section \<open>Properties of the response cleaner\<close>

subsection \<open>Splitting and joining lines\<close>

lemma split_on_not_Nil: "split_on d s \<noteq> []"
  by (induction s) (auto split: list.splits)

lemma split_on_other:
  "c \<noteq> d \<Longrightarrow> split_on d (c # cs) = (c # hd (split_on d cs)) # tl (split_on d cs)"
  using split_on_not_Nil[of d cs] by (cases "split_on d cs") auto

lemma split_on_no_sep: "l \<in> set (split_on d s) \<Longrightarrow> d \<notin> set l"
proof (induction s arbitrary: l)
  case Nil
  then show ?case by simp
next
  case (Cons c cs)
  have ne: "split_on d cs \<noteq> []" by (rule split_on_not_Nil)
  show ?case
  proof (cases "c = d")
    case True
    with Cons show ?thesis by auto
  next
    case False
    from Cons.prems have "l \<in> set ((c # hd (split_on d cs)) # tl (split_on d cs))"
      unfolding split_on_other[OF False] .
    then have "l = c # hd (split_on d cs) \<or> l \<in> set (tl (split_on d cs))"
      by simp
    then show ?thesis
    proof
      assume l: "l = c # hd (split_on d cs)"
      have "hd (split_on d cs) \<in> set (split_on d cs)" using ne by simp
      then have "d \<notin> set (hd (split_on d cs))" by (rule Cons.IH)
      with l False show ?thesis by auto
    next
      assume "l \<in> set (tl (split_on d cs))"
      then have "l \<in> set (split_on d cs)" using ne by (metis list.set_sel(2))
      then show ?thesis by (rule Cons.IH)
    qed
  qed
qed

lemma split_on_no_sep_id: "d \<notin> set x \<Longrightarrow> split_on d x = [x]"
  by (induction x) auto

lemma split_on_append: "d \<notin> set x \<Longrightarrow> split_on d (x @ d # rest) = x # split_on d rest"
  by (induction x) auto

lemma split_on_join:
  "ls \<noteq> [] \<Longrightarrow> \<forall>l\<in>set ls. d \<notin> set l \<Longrightarrow> split_on d (py_join [d] ls) = ls"
proof (induction "[d]" ls rule: py_join.induct)
  case 1
  then show ?case by simp
next
  case (2 x)
  then show ?case by (simp add: split_on_no_sep_id)
next
  case (3 x y ys)
  then show ?case by (simp add: split_on_append)
qed

lemma py_join_not_Nil: "ls \<noteq> [] \<Longrightarrow> \<forall>l\<in>set ls. l \<noteq> [] \<Longrightarrow> py_join sep ls \<noteq> []"
  by (induction sep ls rule: py_join.induct) auto

subsection \<open>Trimming\<close>

lemma py_strip_subset: "set (py_strip s) \<subseteq> set s"
proof -
  have "set (py_strip s) = set (dropWhile is_space (rev (dropWhile is_space s)))"
    by (simp add: py_strip_def)
  also have "\<dots> \<subseteq> set (rev (dropWhile is_space s))"
    using set_dropWhileD by fastforce
  also have "\<dots> \<subseteq> set s"
    using set_dropWhileD by fastforce
  finally show ?thesis .
qed

lemma py_strip_ends:
  "py_strip s = [] \<or> (\<not> is_space (hd (py_strip s)) \<and> \<not> is_space (last (py_strip s)))"
proof (cases "py_strip s = []")
  case True
  then show ?thesis by simp
next
  case False
  let ?t = "dropWhile is_space s"
  let ?u = "dropWhile is_space (rev ?t)"
  have u: "?u \<noteq> []" using False by (simp add: py_strip_def)
  then have t: "?t \<noteq> []" by (metis dropWhile.simps(1) rev_is_Nil_conv)
  have last_ok: "\<not> is_space (last (py_strip s))"
    using u hd_dropWhile[of is_space "rev ?t"] by (simp add: py_strip_def last_rev)
  have "rev ?t = takeWhile is_space (rev ?t) @ ?u" by simp
  then have "?t = rev ?u @ rev (takeWhile is_space (rev ?t))"
    by (metis rev_append rev_rev_ident)
  then have "hd ?t = hd (rev ?u)" using u by (metis hd_append2 rev_is_Nil_conv)
  moreover have "\<not> is_space (hd ?t)" using t by (rule hd_dropWhile)
  ultimately have "\<not> is_space (hd (py_strip s))" by (simp add: py_strip_def)
  with last_ok show ?thesis by simp
qed

lemma py_strip_fix:
  assumes "s = [] \<or> (\<not> is_space (hd s) \<and> \<not> is_space (last s))"
  shows "py_strip s = s"
proof (cases "s = []")
  case True
  then show ?thesis by (simp add: py_strip_def)
next
  case False
  with assms have h: "\<not> is_space (hd s)" and l: "\<not> is_space (last s)" by auto
  have 1: "dropWhile is_space s = s" using h False by (cases s) auto
  from False obtain xs x where sx: "s = xs @ [x]" by (metis rev_exhaust)
  have 2: "dropWhile is_space (rev s) = rev s" using l unfolding sx by simp
  show ?thesis by (simp add: py_strip_def 1 2)
qed

lemma py_strip_idem: "py_strip (py_strip s) = py_strip s"
  by (rule py_strip_fix) (rule py_strip_ends)

subsection \<open>The lines that survive\<close>

lemma filter_lines_mem:
  "l \<in> set (filter_lines ls) \<Longrightarrow>
     \<exists>raw\<in>set ls. l = py_strip raw \<and> l \<noteq> [] \<and> \<not> has_skip_pattern l \<and> l \<noteq> ''>''"
  by (induction ls) (auto simp: Let_def split: if_splits)

lemma filter_lines_fix:
  "\<forall>l\<in>set ls. py_strip l = l \<and> l \<noteq> [] \<and> \<not> has_skip_pattern l \<and> l \<noteq> ''>'' \<Longrightarrow>
     filter_lines ls = ls"
  by (induction ls) (auto simp: Let_def)

lemma filter_lines_Nil_iff:
  "filter_lines ls = [] \<longleftrightarrow>
     (\<forall>raw\<in>set ls. py_strip raw = [] \<or> py_strip raw = ''>'' \<or> has_skip_pattern (py_strip raw))"
  by (induction ls) (auto simp: Let_def)

lemma filtered_props:
  assumes "l \<in> set (filter_lines (split_on NL s))"
  shows "py_strip l = l" and "l \<noteq> []" and "\<not> has_skip_pattern l" and "l \<noteq> ''>''"
    and "NL \<notin> set l"
proof -
  from filter_lines_mem[OF assms] obtain raw where
    raw: "raw \<in> set (split_on NL s)" and l: "l = py_strip raw"
    and rest: "l \<noteq> []" "\<not> has_skip_pattern l" "l \<noteq> ''>''" by blast
  show "py_strip l = l" using l by (simp add: py_strip_idem)
  show "l \<noteq> []" "\<not> has_skip_pattern l" "l \<noteq> ''>''" using rest by auto
  have "NL \<notin> set raw" using raw by (rule split_on_no_sep)
  then show "NL \<notin> set l" using l py_strip_subset[of raw] by auto
qed

lemma clean_response_Some:
  "clean_response r = Some y \<Longrightarrow>
     filter_lines (split_on NL (strip_ansi r)) \<noteq> [] \<and>
     y = py_join [NL] (filter_lines (split_on NL (strip_ansi r)))"
  by (auto simp: clean_response_def Let_def split: if_splits)

text \<open>The facts that evaluate the cleaner on a given string.\<close>

lemmas char_class_eval = is_fe_def is_param_def is_inter_def is_final_def is_space_def

lemmas clean_eval = clean_response_def ansi_match_def has_skip_pattern_def skip_patterns_def
  py_strip_def char_class_eval Let_def

subsection \<open>The shape of the cleaner's output\<close>

text \<open>
  Claim C10.  Whatever the input, the cleaner returns \<open>None\<close> or a text that is not empty
  and whose lines (the parts between its newlines) are each non-empty, equal to their
  own trimming, and different from the lone prompt \<^verbatim>\<open>>\<close>.  The cleaner never returns
  the empty string.
\<close>

theorem clean_response_lines:
  assumes "clean_response r = Some y"
  shows "y \<noteq> [] \<and> (\<forall>l\<in>set (split_on NL y). l \<noteq> [] \<and> py_strip l = l \<and> l \<noteq> ''>'')"
proof -
  let ?fl = "filter_lines (split_on NL (strip_ansi r))"
  from clean_response_Some[OF assms] have ne: "?fl \<noteq> []" and y: "y = py_join [NL] ?fl"
    by auto
  have nonl: "\<forall>l\<in>set ?fl. NL \<notin> set l" using filtered_props(5) by blast
  have sp: "split_on NL y = ?fl" unfolding y using ne nonl by (rule split_on_join)
  have "y \<noteq> []" unfolding y using ne filtered_props(2) by (intro py_join_not_Nil) auto
  moreover have "\<forall>l\<in>set (split_on NL y). l \<noteq> [] \<and> py_strip l = l \<and> l \<noteq> ''>''"
    unfolding sp using filtered_props by blast
  ultimately show ?thesis by simp
qed

text \<open>The theorem at a chunk with padded lines, a prompt and a log line: two lines stay.\<close>

theorem clean_response_lines_witness:
  "clean_response '' a b \<newline>> \<newline>I (12) boot\<newline>\<newline>zz'' = Some ''a b\<newline>zz''
   \<and> ''a b\<newline>zz'' \<noteq> []
   \<and> list_all (\<lambda>l. l \<noteq> [] \<and> py_strip l = l \<and> l \<noteq> ''>'') (split_on NL ''a b\<newline>zz'')"
proof -
  have h: "clean_response '' a b \<newline>> \<newline>I (12) boot\<newline>\<newline>zz'' = Some ''a b\<newline>zz''"
    by (simp add: clean_eval)
  from clean_response_lines[OF h] show ?thesis
    using h by (simp add: list_all_iff)
qed

subsection \<open>Cleaning twice\<close>

text \<open>
  Claim C4, as stated, fails: the pattern is applied in one pass, and removing a match
  can bring an ESC next to a character with which it forms a new match.  Cleaning
  \<^verbatim>\<open>ESC ESC [0m A A\<close> gives \<^verbatim>\<open>ESC A A\<close>, and cleaning that gives \<^verbatim>\<open>A\<close>.
\<close>

theorem clean_response_not_idempotent:
  "clean_response (ESC # ESC # ''[0mAA'') = Some (ESC # ''AA'')
   \<and> clean_response (ESC # ''AA'') = Some ''A''
   \<and> ESC # ''AA'' \<noteq> ''A''"
  by (simp add: clean_eval)

text \<open>
  Claim C4, amended.  When cleaning yields a text in which the pattern of the escape
  sequences matches nowhere (removing the matches leaves the text as it is), cleaning
  that text again yields the same text.
\<close>

theorem clean_response_idempotent:
  assumes "clean_response r = Some y" and "strip_ansi y = y"
  shows "clean_response y = Some y"
proof -
  let ?fl = "filter_lines (split_on NL (strip_ansi r))"
  from clean_response_Some[OF assms(1)] have ne: "?fl \<noteq> []" and y: "y = py_join [NL] ?fl"
    by auto
  have nonl: "\<forall>l\<in>set ?fl. NL \<notin> set l" using filtered_props(5) by blast
  have sp: "split_on NL y = ?fl" unfolding y using ne nonl by (rule split_on_join)
  have fx: "filter_lines ?fl = ?fl"
    by (rule filter_lines_fix) (use filtered_props in blast)
  show ?thesis unfolding clean_response_def Let_def assms(2) sp fx using ne y by simp
qed

text \<open>The theorem at a chunk with a colour sequence, padding and a prompt.\<close>

theorem clean_response_idempotent_witness:
  "clean_response (ESC # ''[32m hello \<newline>> \<newline>ok'') = Some ''hello\<newline>ok''
   \<and> strip_ansi ''hello\<newline>ok'' = ''hello\<newline>ok''
   \<and> clean_response ''hello\<newline>ok'' = Some ''hello\<newline>ok''"
proof -
  have h1: "clean_response (ESC # ''[32m hello \<newline>> \<newline>ok'') = Some ''hello\<newline>ok''"
    by (simp add: clean_eval)
  have h2: "strip_ansi ''hello\<newline>ok'' = ''hello\<newline>ok''"
    by simp
  from clean_response_idempotent[OF h1 h2] show ?thesis
    using h1 h2 by simp
qed

subsection \<open>When the cleaner returns nothing\<close>

lemma py_in_sublist: "py_in sub s \<longleftrightarrow> sublist sub s"
  by (induction s) (auto simp: sublist_Cons_right)

lemma sublist_trans: "sublist xs ys \<Longrightarrow> sublist ys zs \<Longrightarrow> sublist xs zs"
  by (rule sublist_order.order_trans)

lemma py_strip_sublist: "sublist (py_strip s) s"
proof -
  let ?t = "dropWhile is_space s"
  have "suffix (dropWhile is_space (rev ?t)) (rev ?t)" by (rule suffix_dropWhile)
  then have "prefix (py_strip s) ?t" by (simp add: py_strip_def suffix_to_prefix)
  then have "sublist (py_strip s) ?t" by (rule prefix_imp_sublist)
  moreover have "sublist ?t s" by (rule suffix_imp_sublist) (rule suffix_dropWhile)
  ultimately show ?thesis by (rule sublist_trans)
qed

lemma hd_split_on_prefix: "prefix (hd (split_on d s)) s"
  by (induction s) (auto split: list.splits)

lemma split_on_sublist: "l \<in> set (split_on d s) \<Longrightarrow> sublist l s"
proof (induction s arbitrary: l)
  case Nil
  then show ?case by simp
next
  case (Cons c cs)
  have ne: "split_on d cs \<noteq> []" by (rule split_on_not_Nil)
  show ?case
  proof (cases "c = d")
    case True
    with Cons.prems have "l = [] \<or> l \<in> set (split_on d cs)" by simp
    then show ?thesis using Cons.IH by (auto simp: sublist_Cons_right)
  next
    case False
    from Cons.prems have "l \<in> set ((c # hd (split_on d cs)) # tl (split_on d cs))"
      unfolding split_on_other[OF False] .
    then have "l = c # hd (split_on d cs) \<or> l \<in> set (tl (split_on d cs))"
      by simp
    then show ?thesis
    proof
      assume "l = c # hd (split_on d cs)"
      then have "prefix l (c # cs)" using hd_split_on_prefix[of d cs] by simp
      then show ?thesis by (rule prefix_imp_sublist)
    next
      assume "l \<in> set (tl (split_on d cs))"
      then have "l \<in> set (split_on d cs)" using ne by (metis list.set_sel(2))
      then have "sublist l cs" by (rule Cons.IH)
      then show ?thesis by (simp add: sublist_Cons_right)
    qed
  qed
qed

lemma has_skip_pattern_mono: "has_skip_pattern l \<Longrightarrow> sublist l s \<Longrightarrow> has_skip_pattern s"
  unfolding has_skip_pattern_def list_ex_iff py_in_sublist
  using sublist_trans by blast

lemma line_skip_pattern:
  assumes "raw \<in> set (split_on NL s)" and "has_skip_pattern (py_strip raw)"
  shows "has_skip_pattern s"
proof -
  have "sublist (py_strip raw) raw" by (rule py_strip_sublist)
  moreover have "sublist raw s" using assms(1) by (rule split_on_sublist)
  ultimately have "sublist (py_strip raw) s" by (rule sublist_trans)
  with assms(2) show ?thesis by (rule has_skip_pattern_mono)
qed

text \<open>
  Claim C2, as stated, fails: the markers of the cleaner are those of the lines it
  drops, so a chunk without any of them is kept.  The chunk \<^verbatim>\<open>hello\<close> contains no marker
  of the cleaner, the parser recognises nothing in it, and the cleaner returns it.
\<close>

theorem clean_response_keeps_unmarked:
  "\<not> has_skip_pattern ''hello''
   \<and> parse_config_response tk_ok ''hello'' initial_config = (None, initial_config)
   \<and> clean_response ''hello'' = Some ''hello''"
  by (simp add: clean_eval parse_eval stmt_eval)

lemma filter_lines_filter:
  "filter_lines ls =
     filter (\<lambda>l. l \<noteq> [] \<and> l \<noteq> ''>'' \<and> \<not> has_skip_pattern l) (map py_strip ls)"
  by (induction ls) (auto simp: Let_def)

text \<open>
  Claim C2, amended.  For every chunk that, once its escape sequences are removed,
  contains none of the markers of the log lines, the cleaner returns the lines of the
  chunk (with the escape sequences removed), each trimmed, without those that are empty
  or the lone prompt \<^verbatim>\<open>>\<close>, joined by newlines; it returns \<open>None\<close> only when no such line
  is left.  For every chunk, the cleaner returns \<open>None\<close> exactly when every line of the
  chunk, once the escape sequences are removed and the line is trimmed, is empty, is the
  lone prompt, or contains one of the markers.
\<close>

theorem clean_response_unmarked:
  "(\<not> has_skip_pattern (strip_ansi r) \<longrightarrow>
      clean_response r =
        (let kept = filter (\<lambda>l. l \<noteq> [] \<and> l \<noteq> ''>'')
                      (map py_strip (split_on NL (strip_ansi r)))
         in if kept = [] then None else Some (py_join [NL] kept)))
   \<and> (clean_response r = None \<longleftrightarrow>
        (\<forall>raw\<in>set (split_on NL (strip_ansi r)).
           py_strip raw = [] \<or> py_strip raw = ''>'' \<or> has_skip_pattern (py_strip raw)))"
proof -
  let ?ls = "split_on NL (strip_ansi r)"
  have 1: "clean_response r = None \<longleftrightarrow>
      (\<forall>raw\<in>set ?ls.
         py_strip raw = [] \<or> py_strip raw = ''>'' \<or> has_skip_pattern (py_strip raw))"
    by (simp add: clean_response_def Let_def filter_lines_Nil_iff)
  have 2: "clean_response r =
        (let kept = filter (\<lambda>l. l \<noteq> [] \<and> l \<noteq> ''>'') (map py_strip ?ls)
         in if kept = [] then None else Some (py_join [NL] kept))"
    if unmarked: "\<not> has_skip_pattern (strip_ansi r)"
  proof -
    have "\<not> has_skip_pattern l" if "l \<in> set (map py_strip ?ls)" for l
      using that unmarked line_skip_pattern by auto
    then have "filter (\<lambda>l. l \<noteq> [] \<and> l \<noteq> ''>'' \<and> \<not> has_skip_pattern l) (map py_strip ?ls)
             = filter (\<lambda>l. l \<noteq> [] \<and> l \<noteq> ''>'') (map py_strip ?ls)"
      by (intro filter_cong) auto
    then show ?thesis
      by (simp add: clean_response_def Let_def filter_lines_filter)
  qed
  from 1 2 show ?thesis by blast
qed

text \<open>The theorem at a chunk without a marker, of which the line \<^verbatim>\<open>ok\<close> is returned, at a
  chunk of a prompt and a blank line, and at a chunk of a prompt, a blank line and a log
  line: the last two give \<open>None\<close>.\<close>

theorem clean_response_unmarked_witness:
  "\<not> has_skip_pattern (strip_ansi ''> \<newline> ok \<newline>'')
   \<and> clean_response ''> \<newline> ok \<newline>'' = Some ''ok''
   \<and> \<not> has_skip_pattern (strip_ansi ''> \<newline>  '')
   \<and> clean_response ''> \<newline>  '' = None
   \<and> split_on NL (strip_ansi ''> \<newline>  \<newline>I (12) boot'') = [''> '', ''  '', ''I (12) boot'']
   \<and> clean_response ''> \<newline>  \<newline>I (12) boot'' = None"
proof -
  have a: "\<not> has_skip_pattern (strip_ansi ''> \<newline> ok \<newline>'')"
    "\<not> has_skip_pattern (strip_ansi ''> \<newline>  '')"
    by (simp_all add: has_skip_pattern_def skip_patterns_def)
  have b: "split_on NL (strip_ansi ''> \<newline> ok \<newline>'') = [''> '', '' ok '', []]"
    "split_on NL (strip_ansi ''> \<newline>  '') = [''> '', ''  '']"
    "split_on NL (strip_ansi ''> \<newline>  \<newline>I (12) boot'') = [''> '', ''  '', ''I (12) boot'']"
    by simp_all
  have c: "py_strip ''> '' = ''>''" "py_strip ''  '' = []" "py_strip '' ok '' = ''ok''"
    "py_strip [] = []" "has_skip_pattern (py_strip ''I (12) boot'')"
    by (simp_all add: py_strip_def is_space_def has_skip_pattern_def skip_patterns_def)
  from clean_response_unmarked[of "''> \<newline> ok \<newline>''"]
    clean_response_unmarked[of "''> \<newline>  ''"]
    clean_response_unmarked[of "''> \<newline>  \<newline>I (12) boot''"]
  show ?thesis
    unfolding b using a c by (simp add: Let_def)
qed

subsection \<open>Escape sequences around a chunk\<close>

lemma ESC_class: "\<not> is_fe ESC" "\<not> is_param ESC" "\<not> is_inter ESC" "\<not> is_final ESC"
  by (simp_all add: char_class_eval)

lemma dropWhile_append_stop:
  "\<not> P x \<Longrightarrow> dropWhile P (xs @ x # t) = dropWhile P xs @ x # t"
  by (induction xs) auto

lemma dropWhile_append_ne:
  "dropWhile P xs \<noteq> [] \<Longrightarrow> dropWhile P (xs @ ys) = dropWhile P xs @ ys"
  by (induction xs) auto

lemma ansi_match_append:
  assumes "ansi_match x = Some r"
  shows "ansi_match (x @ s) = Some (r @ s)"
proof (cases x)
  case Nil
  with assms show ?thesis by (simp add: ansi_match_def)
next
  case (Cons c cs)
  show ?thesis
  proof (cases "is_fe c")
    case True
    with assms Cons show ?thesis by (simp add: ansi_match_def)
  next
    case False
    let ?i = "dropWhile is_param cs"
    let ?d = "dropWhile is_inter ?i"
    from assms Cons False obtain f where c: "c = CHR ''[''" and d: "?d = f # r" and f: "is_final f"
      by (auto simp: ansi_match_def split: if_splits list.splits)
    from d have "?i \<noteq> []" by (metis dropWhile.simps(1) list.distinct(1))
    then have "dropWhile is_param (cs @ s) = ?i @ s" by (rule dropWhile_append_ne)
    moreover have "dropWhile is_inter (?i @ s) = ?d @ s"
      using d by (intro dropWhile_append_ne) simp
    ultimately have "dropWhile is_inter (dropWhile is_param (cs @ s)) = f # r @ s"
      using d by simp
    with Cons False c f show ?thesis by (simp add: ansi_match_def)
  qed
qed

lemma ansi_match_append_ESC:
  "ansi_match (s @ ESC # t) =
     (case ansi_match s of None \<Rightarrow> None | Some r \<Rightarrow> Some (r @ ESC # t))"
proof (cases s)
  case Nil
  then show ?thesis by (simp add: ansi_match_def ESC_class)
next
  case s: (Cons c cs)
  let ?d = "dropWhile is_inter (dropWhile is_param cs)"
  have d: "dropWhile is_inter (dropWhile is_param (cs @ ESC # t)) = ?d @ ESC # t"
    by (simp add: dropWhile_append_stop ESC_class)
  show ?thesis
  proof (cases ?d)
    case e: Nil
    show ?thesis
      unfolding s ansi_match_def append_Cons list.case d e by (simp add: ESC_class)
  next
    case e: (Cons f rest)
    show ?thesis
      unfolding s ansi_match_def append_Cons list.case d e by simp
  qed
qed

lemma strip_ansi_append_ESC:
  "strip_ansi (s @ ESC # t) = strip_ansi s @ strip_ansi (ESC # t)"
proof (induction s rule: strip_ansi.induct)
  case 1
  then show ?case by simp
next
  case (2 c cs)
  show ?case
  proof (cases "c = ESC")
    case False
    with 2 show ?thesis by simp
  next
    case True
    show ?thesis
    proof (cases "ansi_match cs")
      case None
      with 2 True show ?thesis by (simp add: ansi_match_append_ESC)
    next
      case (Some rest)
      with 2 True show ?thesis by (simp add: ansi_match_append_ESC)
    qed
  qed
qed

lemma strip_ansi_seq_front: "is_ansi_seq a \<Longrightarrow> strip_ansi (a @ s) = strip_ansi s"
  by (cases a) (auto simp: is_ansi_seq_def dest: ansi_match_append[where s = s])

lemma strip_ansi_seq_back: "is_ansi_seq b \<Longrightarrow> strip_ansi (s @ b) = strip_ansi s"
  by (cases b) (auto simp: is_ansi_seq_def strip_ansi_append_ESC)

lemma strip_ansi_wrapped:
  "is_ansi_seq a \<Longrightarrow> is_ansi_seq b \<Longrightarrow> strip_ansi (a @ s @ b) = strip_ansi s"
  by (simp add: strip_ansi_seq_front strip_ansi_seq_back)

text \<open>
  Claim C5.  The chunk \<^verbatim>\<open>ESC[32mLevel assistant: ENABLED ESC[0m\<close> (no space before the
  second ESC) cleans to \<^verbatim>\<open>Level assistant: ENABLED\<close>.  For every chunk \<open>s\<close> and escape sequences
  \<open>a\<close> and \<open>b\<close>, cleaning \<open>a s b\<close> gives what cleaning \<open>s\<close> gives, and cleaning then
  parsing \<open>a s b\<close> leaves the configuration (and raises or not) as cleaning then
  parsing \<open>s\<close> does.
\<close>

theorem ansi_wrapping_ignored:
  "clean_response (ESC # ''[32m'' @ ''Level assistant: ENABLED'' @ ESC # ''[0m'')
     = Some ''Level assistant: ENABLED''
   \<and> (is_ansi_seq a \<and> is_ansi_seq b \<longrightarrow>
        clean_response (a @ s @ b) = clean_response s
        \<and> process_response tk (a @ s @ b) c = process_response tk s c)"
proof -
  have 1: "clean_response (ESC # ''[32m'' @ ''Level assistant: ENABLED'' @ ESC # ''[0m'')
     = Some ''Level assistant: ENABLED''"
    by (simp add: clean_eval)
  have 2: "clean_response (a @ s @ b) = clean_response s" if "is_ansi_seq a" "is_ansi_seq b"
    using that by (simp add: clean_response_def strip_ansi_wrapped)
  then have 3: "process_response tk (a @ s @ b) c = process_response tk s c"
    if "is_ansi_seq a" "is_ansi_seq b"
    using that by (simp add: process_response_def)
  from 1 2 3 show ?thesis by blast
qed

text \<open>The theorem at the colour sequences of the example, around a chunk of two lines:
  both forms switch the level assistant on.\<close>

theorem ansi_wrapping_ignored_witness:
  "is_ansi_seq (ESC # ''[32m'') \<and> is_ansi_seq (ESC # ''[0m'')
   \<and> process_response tk_ok (ESC # ''[32m'' @ ''> \<newline>Level assistant: ENABLED'' @ ESC # ''[0m'')
       initial_config
     = process_response tk_ok ''> \<newline>Level assistant: ENABLED'' initial_config
   \<and> level_assistant (snd (process_response tk_ok ''> \<newline>Level assistant: ENABLED''
       initial_config))"
proof -
  have a: "is_ansi_seq (ESC # ''[32m'')" "is_ansi_seq (ESC # ''[0m'')"
    by (simp_all add: is_ansi_seq_def ansi_match_def char_class_eval)
  have b: "clean_response ''> \<newline>Level assistant: ENABLED'' = Some ''Level assistant: ENABLED''"
    by (simp add: clean_eval)
  have c: "level_assistant (snd (process_response tk_ok ''> \<newline>Level assistant: ENABLED''
       initial_config))"
    unfolding process_response_def b
    by (simp add: parse_eval stmt_eval)
  from ansi_wrapping_ignored[of "ESC # ''[32m''" "ESC # ''[0m''"
      "''> \<newline>Level assistant: ENABLED''" tk_ok initial_config]
  show ?thesis using a c by simp
qed

section \<open>Properties of the parser\<close>

subsection \<open>Sequences and loops of statements\<close>

lemma block_no_error:
  assumes "\<And>st s. st \<in> set sts \<Longrightarrow> fst (st s) = None"
  shows "fst (block sts s) = None"
  using assms
proof (induction sts arbitrary: s)
  case Nil
  then show ?case by simp
next
  case (Cons st sts)
  obtain e s' where r: "st s = (e, s')" by (cases "st s")
  have "e = None" using Cons.prems[of st s] r by simp
  moreover have "fst (block sts s') = None" by (rule Cons.IH) (simp add: Cons.prems)
  ultimately show ?case using r by simp
qed

lemma for_each_no_error:
  assumes "\<And>x s. fst (body x s) = None"
  shows "fst (for_each body xs s) = None"
proof (induction xs arbitrary: s)
  case Nil
  then show ?case by simp
next
  case (Cons x xs)
  obtain e s' where r: "body x s = (e, s')" by (cases "body x s")
  have "e = None" using assms[of x s] r by simp
  with Cons r show ?case by simp
qed







subsection \<open>The parser does not raise\<close>

lemma try_except_no_error: "fst (try_except body s) = None"
  by (simp add: try_except_def)

lemma rules_no_error:
  "fst (parse_throttle_inversion tk_ok r c) = None"
  "fst (parse_level_assistant tk_ok r c) = None"
  "fst (parse_pid_kp tk r c) = None"
  "fst (parse_pid_ki tk r c) = None"
  "fst (parse_pid_kd tk r c) = None"
  "fst (parse_pid_output_max tk r c) = None"
  "fst (parse_motor_pulley tk r c) = None"
  "fst (parse_wheel_pulley tk r c) = None"
  "fst (parse_wheel_diameter tk r c) = None"
  "fst (parse_motor_poles tk r c) = None"
  "fst (pid_params_line tk l c) = None"
  "fst (parse_display_line tk l c) = None"
  by (simp_all add: parse_throttle_inversion_def parse_level_assistant_def parse_pid_kp_def
      parse_pid_ki_def parse_pid_kd_def parse_pid_output_max_def parse_motor_pulley_def
      parse_wheel_pulley_def parse_wheel_diameter_def parse_motor_poles_def pid_params_line_def
      parse_display_line_def try_except_def skip_def store_def tk_call_def tk_ok_def
      update_config_display_def)

lemma parse_pid_params_no_error: "fst (parse_pid_params tk_ok r c) = None"
proof (cases "py_in ''=== Level Assistant PID Parameters ==='' r")
  case False
  then show ?thesis by (simp add: parse_pid_params_def skip_def)
next
  case True
  have "fst (block [for_each (pid_params_line tk_ok) (split_on NL r),
                    update_config_display tk_ok] c) = None"
  proof (rule block_no_error)
    fix st s
    assume "st \<in> set [for_each (pid_params_line tk_ok) (split_on NL r),
                        update_config_display tk_ok]"
    then consider "st = for_each (pid_params_line tk_ok) (split_on NL r)"
      | "st = update_config_display tk_ok" by auto
    then show "fst (st s) = None"
    proof cases
      case 1
      then show ?thesis by (simp add: for_each_no_error rules_no_error)
    next
      case 2
      then show ?thesis by (simp add: update_config_display_def tk_call_def tk_ok_def)
    qed
  qed
  with True show ?thesis by (simp add: parse_pid_params_def)
qed

lemma parse_config_display_no_error: "fst (parse_config_display tk r c) = None"
  unfolding parse_config_display_def by (rule for_each_no_error) (rule rules_no_error)

text \<open>
  Claim C7.  Whatever the response, the configuration and the toolkit's behaviour,
  \<^verbatim>\<open>parse_config_response\<close> returns without an exception (the model's functions are
  total, so it returns).  When no call into the toolkit raises, the body of its outer
  \<^verbatim>\<open>try\<close> does not raise either: a text that does not parse is dealt with at the field.
\<close>

theorem parse_config_response_no_error:
  "fst (parse_config_response tk response c) = None
   \<and> fst (parse_config_body tk_ok response c) = None"
proof -
  have "fst (parse_config_response tk response c) = None"
    by (simp add: parse_config_response_def try_except_def)
  moreover have "fst (parse_config_body tk_ok response c) = None"
    unfolding parse_config_body_def
    by (rule block_no_error)
      (auto simp: rules_no_error parse_pid_params_no_error parse_config_display_no_error
        skip_def)
  ultimately show ?thesis by simp
qed

text \<open>The theorem at a response whose number does not parse, with a toolkit in which
  every call raises.\<close>

theorem parse_config_response_no_error_witness:
  "fst (parse_config_response (\<lambda>w. True) ''PID Kp set to: abc'' initial_config) = None
   \<and> fst (parse_config_body tk_ok ''PID Kp set to: abc'' initial_config) = None"
  using parse_config_response_no_error[of "\<lambda>w. True" "''PID Kp set to: abc''" initial_config]
  by simp

subsection \<open>Throttle inversion\<close>








subsection \<open>A number that does not parse\<close>

lemma display_line_split:
  "CHR '':'' \<in> set line \<Longrightarrow>
     unpack2 (py_split1 CHR '':'' line) =
       Inr (takeWhile (\<lambda>c. c \<noteq> CHR '':'') line, tl (dropWhile (\<lambda>c. c \<noteq> CHR '':'') line))"
  by (simp add: py_split1_def unpack2_def)

lemma bind_val_Inr: "bind_val (Inr v) f = f v"
  by (rule ext) (simp add: bind_val_def)

lemma parse_display_line_colon:
  assumes "CHR '':'' \<in> set line"
  shows "parse_display_line tk line =
     try_except
       (block
          [if line_key line \<in> set [''Throttle Inverted'', ''Throttle inversion''] then
             block [store (\<lambda>c. c\<lparr>invert_throttle :=
                              py_lower (line_value line) \<in> set [''yes'', ''enabled'', ''true'']\<rparr>),
                    tk_call tk ThrottleVar]
           else if line_key line \<in> set [''Level Assistant'', ''Level assistant''] then
             block [store (\<lambda>c. c\<lparr>level_assistant :=
                              py_lower (line_value line) \<in> set [''yes'', ''enabled'', ''true'']\<rparr>),
                    tk_call tk LevelAssistVar]
           else if line_key line \<in> set [''Motor Pulley Teeth'', ''Motor pulley teeth''] then
             bind_val (py_int (line_value line))
               (\<lambda>n. block [store (\<lambda>c. c\<lparr>motor_pulley := n\<rparr>), tk_call tk PulleyVar])
           else if line_key line \<in> set [''Wheel Pulley Teeth'', ''Wheel pulley teeth''] then
             bind_val (py_int (line_value line))
               (\<lambda>n. block [store (\<lambda>c. c\<lparr>wheel_pulley := n\<rparr>), tk_call tk WheelPulleyVar])
           else if line_key line \<in> set [''Wheel Diameter'', ''Wheel diameter''] then
             bind_val (display_diameter (line_value line))
               (\<lambda>n. block [store (\<lambda>c. c\<lparr>wheel_diameter_mm := n\<rparr>), tk_call tk WheelVar])
           else if line_key line \<in> set [''Motor Poles'', ''Motor poles''] then
             bind_val (py_int (line_value line))
               (\<lambda>n. block [store (\<lambda>c. c\<lparr>motor_poles := n\<rparr>), tk_call tk PolesVar])
           else if line_key line \<in> set [''BLE Connected'', ''BLE connected''] then
             store (\<lambda>c. c\<lparr>ble_connected :=
                       py_lower (line_value line) \<in> set [''yes'', ''connected'', ''true'']\<rparr>)
           else skip,
           update_config_display tk])"
  by (simp only: parse_display_line_def assms if_True display_line_split[OF assms]
      bind_val_Inr prod.case Let_def line_key_def line_value_def)

lemma parse_display_line_no_colon:
  "CHR '':'' \<notin> set line \<Longrightarrow> parse_display_line tk line = skip"
  by (simp add: parse_display_line_def)





subsection \<open>The keys of the display\<close>

lemma parse_display_line_other_key:
  assumes "line_key line \<notin> set display_keys"
  shows "snd (parse_display_line tk line c) = c"
proof (cases "CHR '':'' \<in> set line")
  case False
  then show ?thesis by (simp add: parse_display_line_no_colon skip_def)
next
  case True
  show ?thesis
    unfolding parse_display_line_colon[OF True]
    using assms by (simp add: display_keys_def stmt_eval)
qed

lemma for_each_unchanged:
  assumes "\<And>x s. x \<in> set xs \<Longrightarrow> snd (body x s) = s"
  shows "snd (for_each body xs s) = s"
  using assms
proof (induction xs arbitrary: s)
  case Nil
  then show ?case by simp
next
  case (Cons x xs)
  obtain e s' where r: "body x s = (e, s')" by (cases "body x s")
  have "s' = s" using Cons.prems[of x s] r by simp
  moreover have "snd (for_each body xs s) = s" by (rule Cons.IH) (simp add: Cons.prems)
  ultimately show ?case using r by (cases e) auto
qed

lemma parse_display_line_listed_key:
  assumes "CHR '':'' \<in> set line"
  shows
    "line_key line \<in> set [''Throttle Inverted'', ''Throttle inversion''] \<Longrightarrow>
       invert_throttle (snd (parse_display_line tk line c))
         = (py_lower (line_value line) \<in> set [''yes'', ''enabled'', ''true''])"
    "line_key line \<in> set [''Level Assistant'', ''Level assistant''] \<Longrightarrow>
       level_assistant (snd (parse_display_line tk line c))
         = (py_lower (line_value line) \<in> set [''yes'', ''enabled'', ''true''])"
    "line_key line \<in> set [''Motor Pulley Teeth'', ''Motor pulley teeth''] \<Longrightarrow>
       py_int (line_value line) = Inr n \<Longrightarrow>
       motor_pulley (snd (parse_display_line tk line c)) = n"
    "line_key line \<in> set [''Wheel Pulley Teeth'', ''Wheel pulley teeth''] \<Longrightarrow>
       py_int (line_value line) = Inr n \<Longrightarrow>
       wheel_pulley (snd (parse_display_line tk line c)) = n"
    "line_key line \<in> set [''Wheel Diameter'', ''Wheel diameter''] \<Longrightarrow>
       display_diameter (line_value line) = Inr n \<Longrightarrow>
       wheel_diameter_mm (snd (parse_display_line tk line c)) = n"
    "line_key line \<in> set [''Motor Poles'', ''Motor poles''] \<Longrightarrow>
       py_int (line_value line) = Inr n \<Longrightarrow>
       motor_poles (snd (parse_display_line tk line c)) = n"
    "line_key line \<in> set [''BLE Connected'', ''BLE connected''] \<Longrightarrow>
       ble_connected (snd (parse_display_line tk line c))
         = (py_lower (line_value line) \<in> set [''yes'', ''connected'', ''true''])"
  unfolding parse_display_line_colon[OF assms]
  by (auto simp: stmt_eval)

text \<open>
  Claim C9, as stated, fails: the parser compares the trimmed key with the listed
  spellings by equality of strings.  The keys \<^verbatim>\<open>THROTTLE INVERTED\<close> and
  \<^verbatim>\<open>throttle inverted\<close> equal the label \<^verbatim>\<open>Throttle Inverted\<close> up to letter case; the line
  with the label sets \<open>invert_throttle\<close>, the lines with the other two leave the
  configuration as it was.
\<close>

theorem display_key_case_matters:
  "py_lower ''THROTTLE INVERTED'' = py_lower ''Throttle Inverted''
   \<and> py_lower ''throttle inverted'' = py_lower ''Throttle Inverted''
   \<and> invert_throttle (snd (parse_config_display tk_ok ''Throttle Inverted: yes'' initial_config))
   \<and> snd (parse_config_display tk_ok ''THROTTLE INVERTED: yes'' initial_config) = initial_config
   \<and> snd (parse_config_display tk_ok ''throttle inverted: yes'' initial_config) = initial_config
   \<and> \<not> invert_throttle initial_config"
proof -
  have 1: "py_lower ''THROTTLE INVERTED'' = py_lower ''Throttle Inverted''"
    "py_lower ''throttle inverted'' = py_lower ''Throttle Inverted''"
    by (simp_all add: lower_eval)
  have 2: "invert_throttle (snd (parse_config_display tk_ok ''Throttle Inverted: yes''
      initial_config))"
    by (simp add: parse_eval stmt_eval py_split1_def py_strip_def is_space_def lower_eval)
  have 3: "snd (parse_config_display tk_ok ''THROTTLE INVERTED: yes'' initial_config)
      = initial_config"
    by (simp add: parse_eval stmt_eval py_split1_def py_strip_def is_space_def)
  have 4: "snd (parse_config_display tk_ok ''throttle inverted: yes'' initial_config)
      = initial_config"
    by (simp add: parse_eval stmt_eval py_split1_def py_strip_def is_space_def)
  have 5: "\<not> invert_throttle initial_config"
    by (simp add: initial_config_def)
  from 1 2 3 4 5 show ?thesis by simp
qed

text \<open>
  Claim C9, amended.  The display parser dispatches each line that has a colon on the
  equality of its trimmed key (the text before the first colon) with one of the listed
  spellings, the letter case included.  A line whose trimmed key is none of the fourteen
  listed spellings leaves the configuration unchanged, and so does a response all of
  whose lines are such.  A line with a colon whose trimmed key is a listed spelling
  updates the field of that spelling: the three boolean fields to whether the trimmed
  value, in lower case, is one of the accepted words; the four integer fields to the
  integer the value parses to, when it parses.
\<close>

theorem display_key_exact:
  "(line_key line \<notin> set display_keys \<longrightarrow> snd (parse_display_line tk line c) = c)
   \<and> ((\<forall>l\<in>set (split_on NL response). line_key l \<notin> set display_keys) \<longrightarrow>
        snd (parse_config_display tk response c) = c)
   \<and> (CHR '':'' \<in> set line \<longrightarrow>
        (line_key line \<in> set [''Throttle Inverted'', ''Throttle inversion''] \<longrightarrow>
           invert_throttle (snd (parse_display_line tk line c))
             = (py_lower (line_value line) \<in> set [''yes'', ''enabled'', ''true'']))
        \<and> (line_key line \<in> set [''Level Assistant'', ''Level assistant''] \<longrightarrow>
             level_assistant (snd (parse_display_line tk line c))
               = (py_lower (line_value line) \<in> set [''yes'', ''enabled'', ''true'']))
        \<and> (line_key line \<in> set [''Motor Pulley Teeth'', ''Motor pulley teeth'']
             \<and> py_int (line_value line) = Inr n \<longrightarrow>
             motor_pulley (snd (parse_display_line tk line c)) = n)
        \<and> (line_key line \<in> set [''Wheel Pulley Teeth'', ''Wheel pulley teeth'']
             \<and> py_int (line_value line) = Inr n \<longrightarrow>
             wheel_pulley (snd (parse_display_line tk line c)) = n)
        \<and> (line_key line \<in> set [''Wheel Diameter'', ''Wheel diameter'']
             \<and> display_diameter (line_value line) = Inr n \<longrightarrow>
             wheel_diameter_mm (snd (parse_display_line tk line c)) = n)
        \<and> (line_key line \<in> set [''Motor Poles'', ''Motor poles'']
             \<and> py_int (line_value line) = Inr n \<longrightarrow>
             motor_poles (snd (parse_display_line tk line c)) = n)
        \<and> (line_key line \<in> set [''BLE Connected'', ''BLE connected''] \<longrightarrow>
             ble_connected (snd (parse_display_line tk line c))
               = (py_lower (line_value line) \<in> set [''yes'', ''connected'', ''true''])))"
proof -
  have 1: "snd (parse_display_line tk l s) = s" if "line_key l \<notin> set display_keys" for l s
    using that by (rule parse_display_line_other_key)
  have 2: "snd (parse_config_display tk response c) = c"
    if "\<forall>l\<in>set (split_on NL response). line_key l \<notin> set display_keys"
    unfolding parse_config_display_def
  proof (rule for_each_unchanged)
    fix x s
    assume "x \<in> set (split_on NL response)"
    with that have "line_key x \<notin> set display_keys" by (rule bspec)
    then show "snd (parse_display_line tk x s) = s" by (rule 1)
  qed
  show ?thesis
  proof (intro conjI impI)
    assume "line_key line \<notin> set display_keys"
    then show "snd (parse_display_line tk line c) = c" by (rule 1)
  next
    assume "\<forall>l\<in>set (split_on NL response). line_key l \<notin> set display_keys"
    then show "snd (parse_config_display tk response c) = c" by (rule 2)
  qed ((elim conjE)?, (rule parse_display_line_listed_key; assumption))+
qed

text \<open>The theorem at a line whose key is the label in upper case, which changes nothing,
  and at lines with listed spellings, which set their fields.\<close>

theorem display_key_exact_witness:
  "line_key ''THROTTLE INVERTED: yes'' \<notin> set display_keys
   \<and> snd (parse_display_line tk_ok ''THROTTLE INVERTED: yes'' initial_config) = initial_config
   \<and> snd (parse_config_display tk_ok ''THROTTLE INVERTED: yes\<newline>motor poles: 12'' initial_config)
       = initial_config
   \<and> line_key ''Throttle inversion: Enabled'' = ''Throttle inversion''
   \<and> invert_throttle (snd (parse_display_line tk_ok ''Throttle inversion: Enabled''
        initial_config))
   \<and> line_key '' Motor Poles : 12 '' = ''Motor Poles''
   \<and> py_int (line_value '' Motor Poles : 12 '') = Inr 12
   \<and> motor_poles (snd (parse_display_line tk_ok '' Motor Poles : 12 '' initial_config)) = 12"
proof -
  have k: "line_key ''THROTTLE INVERTED: yes'' \<notin> set display_keys"
    "line_key ''motor poles: 12'' \<notin> set display_keys"
    by (simp_all add: line_key_def py_strip_def is_space_def display_keys_def)
  have s: "split_on NL ''THROTTLE INVERTED: yes\<newline>motor poles: 12''
      = [''THROTTLE INVERTED: yes'', ''motor poles: 12'']"
    by simp
  have a: "line_key ''Throttle inversion: Enabled'' = ''Throttle inversion''"
    "py_lower (line_value ''Throttle inversion: Enabled'') = ''enabled''"
    "CHR '':'' \<in> set ''Throttle inversion: Enabled''"
    by (simp_all add: line_key_def line_value_def py_strip_def is_space_def lower_eval)
  have b: "line_key '' Motor Poles : 12 '' = ''Motor Poles''"
    "py_int (line_value '' Motor Poles : 12 '') = Inr 12"
    "CHR '':'' \<in> set '' Motor Poles : 12 ''"
    by (simp_all add: line_key_def line_value_def py_strip_def is_space_def py_int_def
        num_strip_def is_num_space_def split_sign_def is_digit_def digit_val_def dec_value_def)
  from display_key_exact[of "''THROTTLE INVERTED: yes''" tk_ok initial_config
      "''THROTTLE INVERTED: yes\<newline>motor poles: 12''"]
    display_key_exact[of "''Throttle inversion: Enabled''" tk_ok initial_config]
    display_key_exact[of "'' Motor Poles : 12 ''" tk_ok initial_config _ 12]
  show ?thesis
    unfolding s using k a b by simp
qed

section \<open>Properties of the command dispatcher\<close>

lemma send_serial_command_config:
  "config (snd (send_serial_command tk command a)) = config a"
  by (simp add: send_serial_command_def try_catch_def serial_write_def tk_call_def
      messagebox_def)

lemma send_serial_command_written:
  "written (snd (send_serial_command tk command a)) = written a @ [command @ [Lit [NL]]]"
  by (simp add: send_serial_command_def try_catch_def serial_write_def tk_call_def
      messagebox_def)

lemmas dispatch_eval = send_serial_command_def try_catch_def try_catch_value_error_def
  bind_val_def serial_write_def tk_call_def messagebox_def

subsection \<open>The configuration and the sending of commands\<close>

lemma int_setters_config:
  "config (snd (set_motor_pulley tk v a)) = config a"
  "config (snd (set_wheel_pulley tk v a)) = config a"
  "config (snd (set_wheel_size tk v a)) = config a"
  "config (snd (set_motor_poles tk v a)) = config a"
  by (simp_all add: set_motor_pulley_def set_wheel_pulley_def set_wheel_size_def
      set_motor_poles_def dispatch_eval split: sum.splits)

lemma plain_commands_config:
  "config (snd (toggle_throttle tk a)) = config a"
  "config (snd (toggle_level_assistant tk a)) = config a"
  "config (snd (reset_odometer tk a)) = config a"
  "config (snd (get_config tk a)) = config a"
  "config (snd (show_help tk a)) = config a"
  "config (snd (calibrate_throttle tk result a)) = config a"
  "config (snd (get_calibration tk a)) = config a"
  "config (snd (get_pid_params tk a)) = config a"
  by (simp_all add: toggle_throttle_def toggle_level_assistant_def reset_odometer_def
      get_config_def show_help_def calibrate_throttle_def get_calibration_def
      get_pid_params_def dispatch_eval)

lemma pid_setters_config:
  "config (snd (set_pid_kp tk v a)) =
     (case v of
        Inl e \<Rightarrow> config a
      | Inr kp \<Rightarrow>
          if is_connected a \<and> \<not> float_lt kp (Fin 0) \<and> \<not> float_gt kp (Fin 10)
          then (config a)\<lparr>pid_kp := kp\<rparr> else config a)"
  "config (snd (set_pid_ki tk v a)) =
     (case v of
        Inl e \<Rightarrow> config a
      | Inr ki \<Rightarrow>
          if is_connected a \<and> \<not> float_lt ki (Fin 0) \<and> \<not> float_gt ki (Fin 2)
          then (config a)\<lparr>pid_ki := ki\<rparr> else config a)"
  "config (snd (set_pid_kd tk v a)) =
     (case v of
        Inl e \<Rightarrow> config a
      | Inr kd \<Rightarrow>
          if is_connected a \<and> \<not> float_lt kd (Fin 0) \<and> \<not> float_gt kd (Fin 1)
          then (config a)\<lparr>pid_kd := kd\<rparr> else config a)"
  "config (snd (set_pid_output_max tk v a)) =
     (case v of
        Inl e \<Rightarrow> config a
      | Inr output_max \<Rightarrow>
          if is_connected a \<and> \<not> float_lt output_max (Fin 10)
             \<and> \<not> float_gt output_max (Fin 100)
          then (config a)\<lparr>pid_output_max := output_max\<rparr> else config a)"
  by (simp_all add: set_pid_kp_def set_pid_ki_def set_pid_kd_def set_pid_output_max_def
      dispatch_eval split: sum.splits)

text \<open>
  Claim C3, as stated, fails: each of the four PID handlers stores the value it is about
  to send in the configuration before it sends the command.  On a connected program with
  the initial configuration, setting Kp to 1 leaves \<open>pid_kp\<close> at 1 although no response
  has been parsed.
\<close>

theorem set_pid_kp_updates_config:
  "pid_kp (config connected_app) = Fin (8 / 10)
   \<and> pid_kp (config (snd (dispatch tk_ok (SetPidKp (Inr (Fin 1))) connected_app))) = Fin 1
   \<and> config (snd (dispatch tk_ok (SetPidKp (Inr (Fin 1))) connected_app))
       \<noteq> config connected_app"
proof -
  have 1: "pid_kp (config connected_app) = Fin (8 / 10)"
    by (simp add: connected_app_def initial_config_def)
  have 2: "config (snd (dispatch tk_ok (SetPidKp (Inr (Fin 1))) connected_app))
      = (config connected_app)\<lparr>pid_kp := Fin 1\<rparr>"
    by (simp add: pid_setters_config float_gt_def connected_app_def)
  have 3: "config (snd (dispatch tk_ok (SetPidKp (Inr (Fin 1))) connected_app))
      \<noteq> config connected_app"
  proof
    assume "config (snd (dispatch tk_ok (SetPidKp (Inr (Fin 1))) connected_app))
      = config connected_app"
    then have "pid_kp ((config connected_app)\<lparr>pid_kp := Fin 1\<rparr>) = pid_kp (config connected_app)"
      unfolding 2 by simp
    then show False using 1 by simp
  qed
  from 1 2 3 show ?thesis by simp
qed

text \<open>
  Claim C3, amended.  Every command dispatch other than the four PID settings
  (the toggles, the odometer reset, the four integer settings, the requests for the
  configuration, the help, the calibration and the PID parameters), whether it sends a
  command or rejects locally, leaves every field of the configuration unchanged.  A
  PID setting (Kp, Ki, Kd, output maximum) whose value is read without an exception
  while the program is connected, and is neither below the lower nor above the upper
  bound of its range, stores that value in its own field of the configuration on send,
  before any response is parsed, and changes no other field; in every other case it
  leaves the configuration unchanged.
\<close>

theorem dispatch_config:
  "config (snd (dispatch tk a s)) =
     (case a of
        SetPidKp (Inr kp) \<Rightarrow>
          if is_connected s \<and> \<not> float_lt kp (Fin 0) \<and> \<not> float_gt kp (Fin 10)
          then (config s)\<lparr>pid_kp := kp\<rparr> else config s
      | SetPidKi (Inr ki) \<Rightarrow>
          if is_connected s \<and> \<not> float_lt ki (Fin 0) \<and> \<not> float_gt ki (Fin 2)
          then (config s)\<lparr>pid_ki := ki\<rparr> else config s
      | SetPidKd (Inr kd) \<Rightarrow>
          if is_connected s \<and> \<not> float_lt kd (Fin 0) \<and> \<not> float_gt kd (Fin 1)
          then (config s)\<lparr>pid_kd := kd\<rparr> else config s
      | SetPidOutputMax (Inr output_max) \<Rightarrow>
          if is_connected s \<and> \<not> float_lt output_max (Fin 10)
             \<and> \<not> float_gt output_max (Fin 100)
          then (config s)\<lparr>pid_output_max := output_max\<rparr> else config s
      | _ \<Rightarrow> config s)"
  by (cases a)
    (simp_all add: int_setters_config plain_commands_config pid_setters_config
      split: sum.splits)

text \<open>The theorem at a rejected and an accepted integer setting, a toggle, and an accepted
  and a rejected PID setting, on the connected program.\<close>

theorem dispatch_config_witness:
  "config (snd (dispatch tk_ok (SetMotorPulley (Inr 0)) connected_app)) = initial_config
   \<and> config (snd (dispatch tk_ok (SetMotorPulley (Inr 20)) connected_app)) = initial_config
   \<and> config (snd (dispatch tk_ok ToggleThrottle connected_app)) = initial_config
   \<and> config (snd (dispatch tk_ok (SetPidKi (Inr (Fin 1))) connected_app))
       = initial_config\<lparr>pid_ki := Fin 1\<rparr>
   \<and> config (snd (dispatch tk_ok (SetPidKi (Inr (Fin 3))) connected_app)) = initial_config"
  using dispatch_config[of tk_ok "SetMotorPulley (Inr 0)" connected_app]
    dispatch_config[of tk_ok "SetMotorPulley (Inr 20)" connected_app]
    dispatch_config[of tk_ok ToggleThrottle connected_app]
    dispatch_config[of tk_ok "SetPidKi (Inr (Fin 1))" connected_app]
    dispatch_config[of tk_ok "SetPidKi (Inr (Fin 3))" connected_app]
  by (simp add: connected_app_def float_gt_def)

subsection \<open>The validation of the integer settings\<close>

text \<open>
  Claim C8.  For each of the four integer settings (motor pulley, wheel pulley, wheel
  size, motor poles), whatever the state: a value that is at most 0 or above 255, so 0
  and 256, is rejected locally: nothing is written to the device and the configuration
  is unchanged, and on a connected program the message box \<^verbatim>\<open>Invalid Value\<close> is shown.
  On a connected program a value from 1 to 255, so 1 and 255, passes the validation:
  the command with that value and a newline is written to the device, once, and the
  configuration is unchanged.
\<close>

theorem int_setters_validation:
  "(v \<le> 0 \<or> 255 < v \<longrightarrow>
      written (snd (set_motor_pulley tk (Inr v) s)) = written s
      \<and> config (snd (set_motor_pulley tk (Inr v) s)) = config s
      \<and> written (snd (set_wheel_pulley tk (Inr v) s)) = written s
      \<and> config (snd (set_wheel_pulley tk (Inr v) s)) = config s
      \<and> written (snd (set_wheel_size tk (Inr v) s)) = written s
      \<and> config (snd (set_wheel_size tk (Inr v) s)) = config s
      \<and> written (snd (set_motor_poles tk (Inr v) s)) = written s
      \<and> config (snd (set_motor_poles tk (Inr v) s)) = config s
      \<and> (is_connected s \<longrightarrow>
           dialogs (snd (set_motor_pulley tk (Inr v) s))
             = dialogs s @ [(''Invalid Value'', ''Pulley teeth must be between 1 and 255'')]
           \<and> dialogs (snd (set_wheel_pulley tk (Inr v) s))
             = dialogs s @ [(''Invalid Value'', ''Pulley teeth must be between 1 and 255'')]
           \<and> dialogs (snd (set_wheel_size tk (Inr v) s))
             = dialogs s @ [(''Invalid Value'', ''Wheel diameter must be between 1 and 255 mm'')]
           \<and> dialogs (snd (set_motor_poles tk (Inr v) s))
             = dialogs s @ [(''Invalid Value'', ''Motor poles must be between 1 and 255'')]))
   \<and> (is_connected s \<and> 1 \<le> v \<and> v \<le> 255 \<longrightarrow>
        written (snd (set_motor_pulley tk (Inr v) s))
          = written s @ [[Lit ''set_motor_pulley '', IntV v, Lit [NL]]]
        \<and> config (snd (set_motor_pulley tk (Inr v) s)) = config s
        \<and> written (snd (set_wheel_pulley tk (Inr v) s))
          = written s @ [[Lit ''set_wheel_pulley '', IntV v, Lit [NL]]]
        \<and> config (snd (set_wheel_pulley tk (Inr v) s)) = config s
        \<and> written (snd (set_wheel_size tk (Inr v) s))
          = written s @ [[Lit ''set_wheel_size '', IntV v, Lit [NL]]]
        \<and> config (snd (set_wheel_size tk (Inr v) s)) = config s
        \<and> written (snd (set_motor_poles tk (Inr v) s))
          = written s @ [[Lit ''set_motor_poles '', IntV v, Lit [NL]]]
        \<and> config (snd (set_motor_poles tk (Inr v) s)) = config s)"
proof -
  have rejected: "written (snd (set_motor_pulley tk (Inr v) s)) = written s"
    "written (snd (set_wheel_pulley tk (Inr v) s)) = written s"
    "written (snd (set_wheel_size tk (Inr v) s)) = written s"
    "written (snd (set_motor_poles tk (Inr v) s)) = written s"
    if "v \<le> 0 \<or> 255 < v"
    using that
    by (auto simp: set_motor_pulley_def set_wheel_pulley_def set_wheel_size_def
        set_motor_poles_def try_catch_value_error_def bind_val_def messagebox_def)
  have shown: "dialogs (snd (set_motor_pulley tk (Inr v) s))
             = dialogs s @ [(''Invalid Value'', ''Pulley teeth must be between 1 and 255'')]"
    "dialogs (snd (set_wheel_pulley tk (Inr v) s))
             = dialogs s @ [(''Invalid Value'', ''Pulley teeth must be between 1 and 255'')]"
    "dialogs (snd (set_wheel_size tk (Inr v) s))
             = dialogs s @ [(''Invalid Value'', ''Wheel diameter must be between 1 and 255 mm'')]"
    "dialogs (snd (set_motor_poles tk (Inr v) s))
             = dialogs s @ [(''Invalid Value'', ''Motor poles must be between 1 and 255'')]"
    if "v \<le> 0 \<or> 255 < v" "is_connected s"
    using that
    by (auto simp: set_motor_pulley_def set_wheel_pulley_def set_wheel_size_def
        set_motor_poles_def try_catch_value_error_def bind_val_def messagebox_def)
  have accepted: "written (snd (set_motor_pulley tk (Inr v) s))
          = written s @ [[Lit ''set_motor_pulley '', IntV v, Lit [NL]]]"
    "written (snd (set_wheel_pulley tk (Inr v) s))
          = written s @ [[Lit ''set_wheel_pulley '', IntV v, Lit [NL]]]"
    "written (snd (set_wheel_size tk (Inr v) s))
          = written s @ [[Lit ''set_wheel_size '', IntV v, Lit [NL]]]"
    "written (snd (set_motor_poles tk (Inr v) s))
          = written s @ [[Lit ''set_motor_poles '', IntV v, Lit [NL]]]"
    if "is_connected s" "1 \<le> v" "v \<le> 255"
    using that
    by (simp_all add: set_motor_pulley_def set_wheel_pulley_def set_wheel_size_def
        set_motor_poles_def dispatch_eval)
  show ?thesis
    using rejected shown accepted by (simp add: int_setters_config)
qed

text \<open>The theorem at 0, 256, 1 and 255 for the motor pulley on the connected program.\<close>

theorem int_setters_validation_witness:
  "written (snd (set_motor_pulley tk_ok (Inr 0) connected_app)) = []
   \<and> written (snd (set_motor_pulley tk_ok (Inr 256) connected_app)) = []
   \<and> dialogs (snd (set_motor_pulley tk_ok (Inr 256) connected_app))
       = [(''Invalid Value'', ''Pulley teeth must be between 1 and 255'')]
   \<and> is_connected connected_app
   \<and> written (snd (set_motor_pulley tk_ok (Inr 1) connected_app))
       = [[Lit ''set_motor_pulley '', IntV 1, Lit [NL]]]
   \<and> written (snd (set_motor_pulley tk_ok (Inr 255) connected_app))
       = [[Lit ''set_motor_pulley '', IntV 255, Lit [NL]]]
   \<and> config (snd (set_motor_pulley tk_ok (Inr 255) connected_app)) = initial_config"
  using int_setters_validation[of 0 tk_ok connected_app]
    int_setters_validation[of 256 tk_ok connected_app]
    int_setters_validation[of 1 tk_ok connected_app]
    int_setters_validation[of 255 tk_ok connected_app]
  by (simp add: connected_app_def)

end
